theory Spec2Isabelle
  imports Main
begin

section \<open>Window management of NeoMutt: data model\<close>

text \<open>
  The repository holds the window code in two structural variants.
  \<^item> \<^verbatim>\<open>src/mutt_window.c\<close> with the header \<^verbatim>\<open>src/unnamed/part_002\<close>: named windows whose geometry
    (\<^verbatim>\<open>int\<close> fields) is written directly against the screen size \<^verbatim>\<open>LINES\<close> x \<^verbatim>\<open>COLS\<close>.
    Definitions taken from this variant carry the suffix \<open>_flat\<close> where the name also
    exists in the other variant.
  \<^item> \<^verbatim>\<open>src/unnamed/part_001\<close> with the header \<^verbatim>\<open>src/mutt_window.h\<close> and the dialog code of
    \<^verbatim>\<open>part_000\<close>: a tree of windows with \<^verbatim>\<open>short\<close> geometry in a \<^verbatim>\<open>WindowState\<close>, a requested
    size, and a dialog container. These definitions keep the plain names.

  C integers are modelled as \<open>int\<close>. Where the source stores an \<^verbatim>\<open>int\<close> into a \<^verbatim>\<open>short\<close>
  field the narrowing is written out with \<open>to_short\<close> (the value modulo \<open>2^16\<close>, read as
  two's complement, as GCC and Clang define the conversion). The additions and
  subtractions of the source are on \<^verbatim>\<open>int\<close>, between screen sizes, offsets and \<^verbatim>\<open>short\<close>
  configuration values; they are not wrapped, since such operands stay far from the
  limits of \<^verbatim>\<open>int\<close>.
\<close>

datatype MuttWindowOrientation = MUTT_WIN_ORIENT_VERTICAL | MUTT_WIN_ORIENT_HORIZONTAL

datatype MuttWindowSize = MUTT_WIN_SIZE_FIXED | MUTT_WIN_SIZE_MAXIMISE | MUTT_WIN_SIZE_MINIMISE

definition MUTT_WIN_SIZE_UNLIMITED :: int where
  "MUTT_WIN_SIZE_UNLIMITED = - 1"

definition to_short :: "int \<Rightarrow> int" where
  "to_short x = (x + 32768) mod 65536 - 32768"

definition in_short :: "int \<Rightarrow> bool" where
  "in_short x = (- 32768 \<le> x \<and> x \<le> 32767)"

type_synonym addr = nat

text \<open>\<^verbatim>\<open>struct WindowState\<close> (src/mutt_window.h, lines 54-61).\<close>

record WindowState =
  visible :: bool
  rows :: int
  cols :: int
  row_offset :: int
  col_offset :: int

text \<open>
  \<^verbatim>\<open>struct MuttWindow\<close> (src/mutt_window.h, lines 68-83). A pointer is an \<open>addr option\<close>, \<open>None\<close>
  being \<^verbatim>\<open>NULL\<close>. The \<^verbatim>\<open>TAILQ\<close> of children is the list of the children's addresses, head
  first; the \<^verbatim>\<open>entries\<close> links of the queue are not modelled separately.
\<close>

record MuttWindow =
  req_rows :: int
  req_cols :: int
  state :: WindowState
  old :: WindowState
  orient :: MuttWindowOrientation
  win_size :: MuttWindowSize
  parent :: "addr option"
  children :: "addr list"
  name :: "string option"

text \<open>The all-zero \<^verbatim>\<open>WindowState\<close> that \<^verbatim>\<open>mutt_mem_calloc\<close> leaves behind.\<close>

definition zero_WindowState :: WindowState where
  "zero_WindowState =
     \<lparr>visible = False, rows = 0, cols = 0, row_offset = 0, col_offset = 0\<rparr>"

text \<open>
  \<^verbatim>\<open>mutt_window_new\<close> (part_001, lines 62-74): the contents of the freshly allocated
  window. The parameters are \<^verbatim>\<open>int\<close>, the fields \<^verbatim>\<open>req_rows\<close> and \<^verbatim>\<open>req_cols\<close> are
  \<^verbatim>\<open>short\<close>.
\<close>

definition mutt_window_new ::
  "MuttWindowOrientation \<Rightarrow> MuttWindowSize \<Rightarrow> int \<Rightarrow> int \<Rightarrow> MuttWindow" where
  "mutt_window_new orient' size' rows' cols' =
     \<lparr>req_rows = to_short rows',
      req_cols = to_short cols',
      state = zero_WindowState\<lparr>visible := True\<rparr>,
      old = zero_WindowState,
      orient = orient',
      win_size = size',
      parent = None,
      children = [],
      name = None\<rparr>"

text \<open>
  \<^verbatim>\<open>mutt_window_wrap_cols\<close> (src/mutt_window.c, lines 405-413; part_001, lines 396-404; the
  two bodies are identical). \<open>width\<close> is an \<^verbatim>\<open>int\<close>, \<open>wrap\<close> a \<^verbatim>\<open>short\<close>; \<^verbatim>\<open>-wrap\<close> is computed
  after promotion to \<^verbatim>\<open>int\<close> and \<^verbatim>\<open>width + wrap\<close> only when \<^verbatim>\<open>width > -wrap > 0\<close>, so no
  operation of the function can overflow.
\<close>

definition mutt_window_wrap_cols :: "int \<Rightarrow> int \<Rightarrow> int" where
  "mutt_window_wrap_cols width wrap =
     (if wrap < 0 then (if width > - wrap then width + wrap else width)
      else if wrap \<noteq> 0 then (if wrap < width then wrap else width)
      else width)"

section \<open>The window store and the dialog stack\<close>

text \<open>
  Windows live in a store (a map from addresses to windows); the global pointers of
  part_001, lines 41-52, and the configuration it reads are the fields of \<open>globals\<close>.
  Dereferencing \<^verbatim>\<open>NULL\<close> or an address that holds no window is a fault of the run, kept as
  a value.

  The list model of a \<^verbatim>\<open>TAILQ\<close> is exact for the use the queue macros are made for: an
  element is inserted only while it is linked in no queue. \<^verbatim>\<open>TAILQ_INSERT_TAIL\<close> of an
  element that is already in the target queue returns in C, with the links tied into a
  knot that no list describes; the model has no state for that and stops with
  \<open>QueueMisuse\<close>, which is not a crash of the program. An element that is still linked in
  another queue is outside the model as well: the macro overwrites its links and cuts the
  other queue, which the lists do not show. The statements below that speak about an
  insertion therefore assume an element that is linked nowhere or, where they speak about
  the target queue only, an element that is not in the target queue.
\<close>

datatype fault = NullDeref | DanglingDeref | QueueMisuse

text \<open>
  Modelled from the spec: the redraw-scheduling collaborator (\<^verbatim>\<open>mutt_menu.h\<close>, absent from
  src), "mark full redraw needed" and "mark geometry-changed redraw needed". Each call the
  window code issues is recorded, in order.
\<close>

datatype redraw_request = REDRAW_FULL | REDRAW_FLOW

record globals =
  heap :: "addr \<rightharpoonup> MuttWindow"
  RootWindow :: "addr option"
  MuttDialogWindow :: "addr option"
  MuttHelpWindow :: "addr option"
  MuttIndexWindow :: "addr option"
  MuttMessageWindow :: "addr option"
  MuttPagerBarWindow :: "addr option"
  MuttPagerWindow :: "addr option"
  MuttSidebarWindow :: "addr option"
  MuttStatusWindow :: "addr option"
  OptNoCurses :: bool
  C_Help :: bool
  C_StatusOnTop :: bool
  C_PagerIndexLines :: int
  redraw :: "redraw_request list"

definition deref :: "globals \<Rightarrow> addr option \<Rightarrow> fault + MuttWindow" where
  "deref g p =
     (case p of
        None \<Rightarrow> Inl NullDeref
      | Some a \<Rightarrow> (case heap g a of None \<Rightarrow> Inl DanglingDeref | Some w \<Rightarrow> Inr w))"

definition store :: "addr \<Rightarrow> MuttWindow \<Rightarrow> globals \<Rightarrow> globals" where
  "store a w g = g\<lparr>heap := (heap g)(a \<mapsto> w)\<rparr>"

text \<open>The assignment \<^verbatim>\<open>p->state.visible = b\<close>.\<close>

definition set_visible :: "addr option \<Rightarrow> bool \<Rightarrow> globals \<Rightarrow> fault + globals" where
  "set_visible p b g =
     (case deref g p of
        Inl e \<Rightarrow> Inl e
      | Inr w \<Rightarrow> Inr (store (the p) (w\<lparr>state := (state w)\<lparr>visible := b\<rparr>\<rparr>) g))"

definition TAILQ_FIRST :: "addr list \<Rightarrow> addr option" where
  "TAILQ_FIRST q = (case q of [] \<Rightarrow> None | x # _ \<Rightarrow> Some x)"

definition TAILQ_LAST :: "addr list \<Rightarrow> addr option" where
  "TAILQ_LAST q = (if q = [] then None else Some (last q))"

text \<open>
  \<^verbatim>\<open>TAILQ_INSERT_TAIL(&p->children, elm, entries)\<close>: the macro writes \<^verbatim>\<open>elm->entries\<close>, so
  \<open>elm\<close> has to point to a window.
\<close>

definition TAILQ_INSERT_TAIL :: "addr option \<Rightarrow> addr option \<Rightarrow> globals \<Rightarrow> fault + globals" where
  "TAILQ_INSERT_TAIL p elm g =
     (case deref g elm of
        Inl e \<Rightarrow> Inl e
      | Inr _ \<Rightarrow>
          (case deref g p of
             Inl e \<Rightarrow> Inl e
           | Inr w \<Rightarrow>
               if the elm \<in> set (children w) then Inl QueueMisuse
               else Inr (store (the p) (w\<lparr>children := children w @ [the elm]\<rparr>) g)))"

text \<open>\<^verbatim>\<open>TAILQ_REMOVE(&p->children, elm, entries)\<close> for an element of the queue.\<close>

definition TAILQ_REMOVE :: "addr option \<Rightarrow> addr option \<Rightarrow> globals \<Rightarrow> fault + globals" where
  "TAILQ_REMOVE p elm g =
     (case deref g elm of
        Inl e \<Rightarrow> Inl e
      | Inr _ \<Rightarrow>
          (case deref g p of
             Inl e \<Rightarrow> Inl e
           | Inr w \<Rightarrow>
               if the elm \<notin> set (children w) then Inl QueueMisuse
               else Inr (store (the p) (w\<lparr>children := remove1 (the elm) (children w)\<rparr>) g)))"

text \<open>
  \<^verbatim>\<open>struct Dialog\<close> is declared in \<^verbatim>\<open>dialog.h\<close>, which is not under src; the dialog code
  reads its field \<^verbatim>\<open>root\<close> only.
\<close>

record Dialog =
  root :: "addr option"

text \<open>\<^verbatim>\<open>dialog_push\<close> (part_000, lines 9-20).\<close>

definition dialog_push :: "Dialog option \<Rightarrow> globals \<Rightarrow> fault + globals" where
  "dialog_push dlg g =
     (if dlg = None \<or> MuttDialogWindow g = None then Inr g
      else
        (case deref g (MuttDialogWindow g) of
           Inl e \<Rightarrow> Inl e
         | Inr c \<Rightarrow>
             (case (case TAILQ_LAST (children c) of
                      None \<Rightarrow> Inr g
                    | Some l \<Rightarrow> set_visible (Some l) False g) of
                Inl e \<Rightarrow> Inl e
              | Inr g1 \<Rightarrow>
                  (case TAILQ_INSERT_TAIL (MuttDialogWindow g1) (root (the dlg)) g1 of
                     Inl e \<Rightarrow> Inl e
                   | Inr g2 \<Rightarrow> set_visible (root (the dlg)) True g2))))"

text \<open>\<^verbatim>\<open>dialog_pop\<close> (part_000, lines 22-37).\<close>

definition dialog_pop :: "globals \<Rightarrow> fault + globals" where
  "dialog_pop g =
     (if MuttDialogWindow g = None then Inr g
      else
        (case deref g (MuttDialogWindow g) of
           Inl e \<Rightarrow> Inl e
         | Inr c \<Rightarrow>
             (case TAILQ_LAST (children c) of
                None \<Rightarrow> Inr g
              | Some l \<Rightarrow>
                  (case set_visible (Some l) False g of
                     Inl e \<Rightarrow> Inl e
                   | Inr g1 \<Rightarrow>
                       (case TAILQ_REMOVE (MuttDialogWindow g1) (Some l) g1 of
                          Inl e \<Rightarrow> Inl e
                        | Inr g2 \<Rightarrow>
                            (case deref g2 (MuttDialogWindow g2) of
                               Inl e \<Rightarrow> Inl e
                             | Inr c2 \<Rightarrow>
                                 (case TAILQ_LAST (children c2) of
                                    None \<Rightarrow> Inr g2
                                  | Some l2 \<Rightarrow> set_visible (Some l2) True g2)))))))"

text \<open>A run of dialog operations, stopping at the first fault.\<close>

datatype dialog_op = Push "Dialog option" | Pop

fun dialog_step :: "dialog_op \<Rightarrow> globals \<Rightarrow> fault + globals" where
  "dialog_step (Push dlg) g = dialog_push dlg g"
| "dialog_step Pop g = dialog_pop g"

fun dialog_run :: "dialog_op list \<Rightarrow> globals \<Rightarrow> fault + globals" where
  "dialog_run [] g = Inr g"
| "dialog_run (x # xs) g =
     (case dialog_step x g of Inl e \<Rightarrow> Inl e | Inr g' \<Rightarrow> dialog_run xs g')"

text \<open>The children of the dialog container, and those of them that are visible.\<close>

definition dialog_children :: "globals \<Rightarrow> addr list" where
  "dialog_children g =
     (case deref g (MuttDialogWindow g) of Inl _ \<Rightarrow> [] | Inr c \<Rightarrow> children c)"

definition is_visible :: "globals \<Rightarrow> addr \<Rightarrow> bool" where
  "is_visible g a = (case heap g a of None \<Rightarrow> False | Some w \<Rightarrow> visible (state w))"

definition visible_dialogs :: "globals \<Rightarrow> addr list" where
  "visible_dialogs g = filter (is_visible g) (dialog_children g)"

text \<open>
  Views of the store that the statements below use: the geometry of a window (current
  and previous), the child sequence of the window at an address, and the relation
  between two global states that differ at most in the store.
\<close>

definition geometry :: "WindowState \<Rightarrow> int \<times> int \<times> int \<times> int" where
  "geometry s = (rows s, cols s, row_offset s, col_offset s)"

definition pane_geometry ::
  "MuttWindow \<Rightarrow> (int \<times> int \<times> int \<times> int) \<times> (int \<times> int \<times> int \<times> int)" where
  "pane_geometry w = (geometry (state w), geometry (old w))"

definition kids :: "globals \<Rightarrow> addr \<Rightarrow> addr list option" where
  "kids g a = map_option children (heap g a)"

definition same_but_heap :: "globals \<Rightarrow> globals \<Rightarrow> bool" where
  "same_but_heap g' g = (g' = g\<lparr>heap := heap g'\<rparr>)"

text \<open>
  The spec's view of the dialog stack, following its words ("a LIFO of screens",
  "the most recently pushed one"): the roots pushed and not yet popped, oldest first.
  A push without a dialog is no operation.
\<close>

fun lifo_step :: "dialog_op \<Rightarrow> addr list \<Rightarrow> addr list" where
  "lifo_step (Push None) st = st"
| "lifo_step (Push (Some d)) st = (case root d of None \<Rightarrow> st | Some r \<Rightarrow> st @ [r])"
| "lifo_step Pop st = butlast st"

fun lifo :: "dialog_op list \<Rightarrow> addr list \<Rightarrow> addr list" where
  "lifo [] st = st"
| "lifo (x # xs) st = lifo xs (lifo_step x st)"

text \<open>
  The runs the list model covers: every pushed dialog has a root that points to a window
  of the store and that is not linked in the container at that moment.
\<close>

fun push_ok :: "globals \<Rightarrow> dialog_op \<Rightarrow> addr list \<Rightarrow> bool" where
  "push_ok g (Push None) st = True"
| "push_ok g (Push (Some d)) st =
     (case root d of None \<Rightarrow> False | Some r \<Rightarrow> heap g r \<noteq> None \<and> r \<notin> set st)"
| "push_ok g Pop st = True"

fun run_ok :: "globals \<Rightarrow> dialog_op list \<Rightarrow> addr list \<Rightarrow> bool" where
  "run_ok g [] st = True"
| "run_ok g (x # xs) st = (push_ok g x st \<and> run_ok g xs (lifo_step x st))"

text \<open>
  The invariant of the dialog container: its children are distinct windows of the store,
  the last one is visible and no other is.
\<close>

definition stack_inv :: "globals \<Rightarrow> addr list \<Rightarrow> bool" where
  "stack_inv g st =
     (\<exists>c. MuttDialogWindow g = Some c \<and> kids g c = Some st \<and>
        distinct st \<and> (\<forall>a \<in> set st. heap g a \<noteq> None) \<and>
        (\<forall>a \<in> set (butlast st). \<not> is_visible g a) \<and>
        (st \<noteq> [] \<longrightarrow> is_visible g (last st)))"

text \<open>
  A concrete state: the layout that \<^verbatim>\<open>mutt_window_init\<close> (part_001, lines 192-213) builds,
  with Root, Help, Dialogs and Message at the addresses 0 to 3, and two dialog roots made
  by \<^verbatim>\<open>mutt_window_new\<close> at 4 and 5, not yet pushed.
\<close>

definition layout0 :: globals where
  "layout0 =
     \<lparr>heap =
        [0 \<mapsto> (mutt_window_new MUTT_WIN_ORIENT_VERTICAL MUTT_WIN_SIZE_FIXED 0 0)
               \<lparr>children := [1, 2, 3], name := Some ''Root''\<rparr>,
         1 \<mapsto> (mutt_window_new MUTT_WIN_ORIENT_VERTICAL MUTT_WIN_SIZE_FIXED 1 MUTT_WIN_SIZE_UNLIMITED)
               \<lparr>parent := Some 0, name := Some ''Help''\<rparr>,
         2 \<mapsto> (mutt_window_new MUTT_WIN_ORIENT_VERTICAL MUTT_WIN_SIZE_MAXIMISE
                  MUTT_WIN_SIZE_UNLIMITED MUTT_WIN_SIZE_UNLIMITED)
               \<lparr>parent := Some 0, name := Some ''Dialogs''\<rparr>,
         3 \<mapsto> (mutt_window_new MUTT_WIN_ORIENT_VERTICAL MUTT_WIN_SIZE_FIXED 1 MUTT_WIN_SIZE_UNLIMITED)
               \<lparr>parent := Some 0, name := Some ''Message''\<rparr>,
         4 \<mapsto> mutt_window_new MUTT_WIN_ORIENT_VERTICAL MUTT_WIN_SIZE_MAXIMISE
                 MUTT_WIN_SIZE_UNLIMITED MUTT_WIN_SIZE_UNLIMITED,
         5 \<mapsto> mutt_window_new MUTT_WIN_ORIENT_VERTICAL MUTT_WIN_SIZE_MAXIMISE
                 MUTT_WIN_SIZE_UNLIMITED MUTT_WIN_SIZE_UNLIMITED],
      RootWindow = Some 0,
      MuttDialogWindow = Some 2,
      MuttHelpWindow = Some 1,
      MuttIndexWindow = None,
      MuttMessageWindow = Some 3,
      MuttPagerBarWindow = None,
      MuttPagerWindow = None,
      MuttSidebarWindow = None,
      MuttStatusWindow = None,
      OptNoCurses = False,
      C_Help = True,
      C_StatusOnTop = False,
      C_PagerIndexLines = 0,
      redraw = []\<rparr>"

definition dialog1 :: Dialog where
  "dialog1 = \<lparr>root = Some 4\<rparr>"

definition dialog2 :: Dialog where
  "dialog2 = \<lparr>root = Some 5\<rparr>"



section \<open>Reflow in the tree variant (part_001)\<close>

text \<open>
  \<^verbatim>\<open>mutt_menu_set_current_redraw_full()\<close> and \<^verbatim>\<open>mutt_menu_set_current_redraw(flag)\<close>: the
  request is appended to the record of requests.
\<close>

definition mutt_menu_set_current_redraw_full :: "globals \<Rightarrow> globals" where
  "mutt_menu_set_current_redraw_full g = g\<lparr>redraw := redraw g @ [REDRAW_FULL]\<rparr>"

definition mutt_menu_set_current_redraw :: "redraw_request \<Rightarrow> globals \<Rightarrow> globals" where
  "mutt_menu_set_current_redraw r g = g\<lparr>redraw := redraw g @ [r]\<rparr>"

text \<open>
  One of the three blocks of \<^verbatim>\<open>mutt_window_reflow_prep\<close> that share a shape (part_001,
  lines 298-307, 312-321 and 323-332): with \<open>win\<close> the Help, Index or Pager window,
  \<^verbatim>\<open>parent = win->parent\<close>, \<^verbatim>\<open>first = TAILQ_FIRST(&parent->children)\<close>, and the first child is
  moved to the tail when \<^verbatim>\<open>C_StatusOnTop\<close> and the position of \<open>win\<close> disagree.
\<close>

definition reflow_prep_swap :: "addr option \<Rightarrow> globals \<Rightarrow> fault + globals" where
  "reflow_prep_swap win g =
     (case deref g win of
        Inl e \<Rightarrow> Inl e
      | Inr w \<Rightarrow>
          (case deref g (parent w) of
             Inl e \<Rightarrow> Inl e
           | Inr pw \<Rightarrow>
               let first = TAILQ_FIRST (children pw) in
               if (C_StatusOnTop g \<and> first = win) \<or> (\<not> C_StatusOnTop g \<and> first \<noteq> win) then
                 (case TAILQ_REMOVE (parent w) first g of
                    Inl e \<Rightarrow> Inl e
                  | Inr g1 \<Rightarrow> TAILQ_INSERT_TAIL (parent w) first g1)
               else Inr g))"

text \<open>
  The last block of \<^verbatim>\<open>mutt_window_reflow_prep\<close> (part_001, lines 334-350): the size policy
  of the Index window and of its parent follows the visibility of the Pager's parent.
\<close>

definition reflow_prep_index :: "globals \<Rightarrow> fault + globals" where
  "reflow_prep_index g =
     (case deref g (MuttPagerWindow g) of
        Inl e \<Rightarrow> Inl e
      | Inr pager \<Rightarrow>
          (case deref g (parent pager) of
             Inl e \<Rightarrow> Inl e
           | Inr pp \<Rightarrow>
               (case deref g (MuttIndexWindow g) of
                  Inl e \<Rightarrow> Inl e
                | Inr ix \<Rightarrow>
                    let ix' = (if visible (state pp)
                               then ix\<lparr>req_rows := C_PagerIndexLines g, win_size := MUTT_WIN_SIZE_FIXED\<rparr>
                               else ix\<lparr>req_rows := MUTT_WIN_SIZE_UNLIMITED,
                                      win_size := MUTT_WIN_SIZE_MAXIMISE\<rparr>);
                        g1 = store (the (MuttIndexWindow g)) ix' g
                    in
                    (case deref g1 (parent ix') of
                       Inl e \<Rightarrow> Inl e
                     | Inr ip \<Rightarrow>
                         Inr (store (the (parent ix'))
                                (if visible (state pp)
                                 then ip\<lparr>win_size := MUTT_WIN_SIZE_MINIMISE,
                                        state := (state ip)\<lparr>visible := (C_PagerIndexLines g \<noteq> 0)\<rparr>\<rparr>
                                 else ip\<lparr>win_size := MUTT_WIN_SIZE_MAXIMISE,
                                        state := (state ip)\<lparr>visible := True\<rparr>\<rparr>)
                                g1)))))"

text \<open>\<^verbatim>\<open>mutt_window_reflow_prep\<close> (part_001, lines 294-351).\<close>

definition mutt_window_reflow_prep :: "globals \<Rightarrow> fault + globals" where
  "mutt_window_reflow_prep g =
     (case set_visible (MuttHelpWindow g) (C_Help g) g of
        Inl e \<Rightarrow> Inl e
      | Inr g1 \<Rightarrow>
          (case reflow_prep_swap (MuttHelpWindow g1) g1 of
             Inl e \<Rightarrow> Inl e
           | Inr g2 \<Rightarrow>
               if MuttIndexWindow g2 = None \<or> MuttPagerWindow g2 = None then Inr g2
               else
                 (case reflow_prep_swap (MuttIndexWindow g2) g2 of
                    Inl e \<Rightarrow> Inl e
                  | Inr g3 \<Rightarrow>
                      (case reflow_prep_swap (MuttPagerWindow g3) g3 of
                         Inl e \<Rightarrow> Inl e
                       | Inr g4 \<Rightarrow> reflow_prep_index g4))))"

text \<open>
  \<^verbatim>\<open>win_dump\<close> (part_001, lines 469-487) writes the visible windows to the debug log and
  changes nothing. It reads \<^verbatim>\<open>RootWindow->state.visible\<close> first, which is the dereference
  kept here; the log itself is not part of the state.
\<close>

definition win_dump :: "globals \<Rightarrow> fault + globals" where
  "win_dump g = (case deref g (RootWindow g) of Inl e \<Rightarrow> Inl e | Inr _ \<Rightarrow> Inr g)"

text \<open>
  \<^verbatim>\<open>mutt_window_reflow\<close> (part_001, lines 357-370). The engine \<^verbatim>\<open>window_reflow\<close> lives in
  \<^verbatim>\<open>reflow.c\<close>, which is not under src: it is the parameter \<open>window_reflow\<close>, any function
  from the window to lay out and the state to a fault or the new state.
\<close>

type_synonym reflow_engine = "addr option \<Rightarrow> globals \<Rightarrow> fault + globals"

definition mutt_window_reflow :: "reflow_engine \<Rightarrow> addr option \<Rightarrow> globals \<Rightarrow> fault + globals" where
  "mutt_window_reflow window_reflow win g =
     (if OptNoCurses g then Inr g
      else
        (case mutt_window_reflow_prep g of
           Inl e \<Rightarrow> Inl e
         | Inr g1 \<Rightarrow>
             (case window_reflow (if win \<noteq> None then win else RootWindow g1) g1 of
                Inl e \<Rightarrow> Inl e
              | Inr g2 \<Rightarrow>
                  win_dump
                    (mutt_menu_set_current_redraw REDRAW_FLOW
                       (mutt_menu_set_current_redraw_full g2)))))"

text \<open>\<^verbatim>\<open>mutt_window_reflow_message_rows\<close> (part_001, lines 378-386).\<close>

definition mutt_window_reflow_message_rows ::
  "reflow_engine \<Rightarrow> int \<Rightarrow> globals \<Rightarrow> fault + globals" where
  "mutt_window_reflow_message_rows window_reflow mw_rows g =
     (case deref g (MuttMessageWindow g) of
        Inl e \<Rightarrow> Inl e
      | Inr m \<Rightarrow>
          (case mutt_window_reflow window_reflow (parent m)
                  (store (the (MuttMessageWindow g)) (m\<lparr>req_rows := to_short mw_rows\<rparr>) g) of
             Inl e \<Rightarrow> Inl e
           | Inr g1 \<Rightarrow> Inr (mutt_menu_set_current_redraw_full g1)))"

text \<open>
  \<^verbatim>\<open>mutt_window_set_root\<close> (part_001, lines 444-467). \<open>rows\<close> and \<open>cols\<close> are \<^verbatim>\<open>int\<close>, the
  stored fields \<^verbatim>\<open>short\<close>: the comparison is made on \<^verbatim>\<open>int\<close>, the assignment narrows.
\<close>

definition mutt_window_set_root ::
  "reflow_engine \<Rightarrow> int \<Rightarrow> int \<Rightarrow> globals \<Rightarrow> fault + globals" where
  "mutt_window_set_root window_reflow rows' cols' g =
     (if RootWindow g = None then Inr g
      else
        (case deref g (RootWindow g) of
           Inl e \<Rightarrow> Inl e
         | Inr w \<Rightarrow>
             let w1 = (if rows (state w) \<noteq> rows'
                       then w\<lparr>state := (state w)\<lparr>rows := to_short rows'\<rparr>\<rparr> else w);
                 w2 = (if cols (state w1) \<noteq> cols'
                       then w1\<lparr>state := (state w1)\<lparr>cols := to_short cols'\<rparr>\<rparr> else w1);
                 changed = (rows (state w) \<noteq> rows' \<or> cols (state w1) \<noteq> cols')
             in
             if changed
             then mutt_window_reflow window_reflow (RootWindow g) (store (the (RootWindow g)) w2 g)
             else Inr g))"

text \<open>The root of \<open>layout0\<close> after a resize to 24 rows and 80 columns has been stored.\<close>

definition layout0_resized :: globals where
  "layout0_resized =
     store 0
       ((mutt_window_new MUTT_WIN_ORIENT_VERTICAL MUTT_WIN_SIZE_FIXED 0 0)
          \<lparr>state := zero_WindowState\<lparr>visible := True, rows := 24, cols := 80\<rparr>,
           children := [1, 2, 3], name := Some ''Root''\<rparr>)
       layout0"

section \<open>Further operations on windows (part_001)\<close>

text \<open>\<^verbatim>\<open>mutt_window_add_child\<close> (part_001, lines 411-418).\<close>

definition mutt_window_add_child :: "addr option \<Rightarrow> addr option \<Rightarrow> globals \<Rightarrow> fault + globals" where
  "mutt_window_add_child parent' child g =
     (if parent' = None \<or> child = None then Inr g
      else
        (case TAILQ_INSERT_TAIL parent' child g of
           Inl e \<Rightarrow> Inl e
         | Inr g1 \<Rightarrow>
             (case deref g1 child of
                Inl e \<Rightarrow> Inl e
              | Inr cw \<Rightarrow> Inr (store (the child) (cw\<lparr>parent := parent'\<rparr>) g1))))"

text \<open>\<^verbatim>\<open>mutt_window_copy_size\<close> (part_001, lines 271-280).\<close>

definition mutt_window_copy_size :: "addr option \<Rightarrow> addr option \<Rightarrow> globals \<Rightarrow> fault + globals" where
  "mutt_window_copy_size win_src win_dst g =
     (if win_src = None \<or> win_dst = None then Inr g
      else
        (case deref g win_src of
           Inl e \<Rightarrow> Inl e
         | Inr src \<Rightarrow>
             (case deref g win_dst of
                Inl e \<Rightarrow> Inl e
              | Inr dst \<Rightarrow>
                  Inr (store (the win_dst)
                         (dst\<lparr>state := (state dst)
                                \<lparr>rows := rows (state src), cols := cols (state src),
                                 row_offset := row_offset (state src),
                                 col_offset := col_offset (state src)\<rparr>\<rparr>)
                         g))))"

text \<open>
  \<^verbatim>\<open>mutt_window_move\<close> (part_001, lines 223-226). The result is the pair of coordinates the
  function hands to the curses routine \<^verbatim>\<open>move\<close>; what curses answers is outside the
  repository. There is no test of \<open>win\<close> before \<^verbatim>\<open>win->state.row_offset\<close> is read.
\<close>

definition mutt_window_move :: "addr option \<Rightarrow> int \<Rightarrow> int \<Rightarrow> globals \<Rightarrow> fault + (int \<times> int)" where
  "mutt_window_move win row col g =
     (case deref g win of
        Inl e \<Rightarrow> Inl e
      | Inr w \<Rightarrow> Inr (row_offset (state w) + row, col_offset (state w) + col))"

text \<open>
  \<^verbatim>\<open>mutt_winlist_free\<close> (part_001, lines 424-437), for the queue \<^verbatim>\<open>&head->children\<close> of the
  window at \<open>head\<close>: each child is unlinked, its own children are freed, and it is freed.
  The recursion follows pointers of the store, so it carries fuel; \<open>None\<close> is "out of
  fuel".
\<close>

fun mutt_winlist_free :: "nat \<Rightarrow> addr \<Rightarrow> globals \<Rightarrow> (fault + globals) option" where
  "mutt_winlist_free 0 head g = None"
| "mutt_winlist_free (Suc n) head g =
     (case deref g (Some head) of
        Inl e \<Rightarrow> Some (Inl e)
      | Inr hw \<Rightarrow>
          (case children hw of
             [] \<Rightarrow> Some (Inr g)
           | np # rest \<Rightarrow>
               (case deref g (Some np) of
                  Inl e \<Rightarrow> Some (Inl e)
                | Inr _ \<Rightarrow>
                    (case mutt_winlist_free n np (store head (hw\<lparr>children := rest\<rparr>) g) of
                       None \<Rightarrow> None
                     | Some (Inl e) \<Rightarrow> Some (Inl e)
                     | Some (Inr g1) \<Rightarrow>
                         mutt_winlist_free n head (g1\<lparr>heap := (heap g1)(np := None)\<rparr>)))))"

text \<open>
  \<^verbatim>\<open>mutt_window_free\<close> (part_001, lines 80-90). The argument is a pointer to a pointer
  variable: \<open>None\<close> for a null \<open>ptr\<close>, \<open>Some p\<close> when the variable holds \<open>p\<close>. The result
  pairs the variable's content afterwards with the state; \<^verbatim>\<open>FREE(ptr)\<close> releases the window
  and nulls the variable.
\<close>

definition mutt_window_free ::
  "nat \<Rightarrow> addr option option \<Rightarrow> globals \<Rightarrow> (fault + addr option option \<times> globals) option" where
  "mutt_window_free fuel ptr g =
     (if ptr = None \<or> ptr = Some None then Some (Inr (ptr, g))
      else
        (case deref g (the ptr) of
           Inl e \<Rightarrow> Some (Inl e)
         | Inr _ \<Rightarrow>
             (case mutt_winlist_free fuel (the (the ptr)) g of
                None \<Rightarrow> None
              | Some (Inl e) \<Rightarrow> Some (Inl e)
              | Some (Inr g1) \<Rightarrow>
                  Some (Inr (Some None, g1\<lparr>heap := (heap g1)(the (the ptr) := None)\<rparr>)))))"

section \<open>The flat variant (src/mutt_window.c)\<close>

text \<open>
  Thirteen windows are allocated in this variant, all by \<^verbatim>\<open>mutt_window_init\<close>
  (src/mutt_window.c, lines 193-226): the containers held in the locals \<^verbatim>\<open>w1\<close> to \<^verbatim>\<open>w6\<close>
  and the seven named windows. A pointer to a window is the name of its allocation, \<open>None\<close>
  being \<^verbatim>\<open>NULL\<close>.
\<close>

datatype pane_flat =
  Win_w1 | Win_w2 | Win_w3 | Win_w4 | Win_w5 | Win_w6
  | Win_Help | Win_Index | Win_Message | Win_PagerBar | Win_Pager | Win_Sidebar | Win_Status

text \<open>
  \<^verbatim>\<open>struct MuttWindow\<close> of src/unnamed/part_002, lines 56-70: the geometry and the
  visibility flag are fields of the window itself, all \<^verbatim>\<open>int\<close> (the same five names as
  \<open>WindowState\<close>, which this record extends). The queue of children is the list of the
  children's names, head first, as in the tree variant.
\<close>

record MuttWindow_flat = WindowState +
  orient_flat :: MuttWindowOrientation
  size_flat :: MuttWindowSize
  parent_flat :: "pane_flat option"
  children_flat :: "pane_flat list"

text \<open>
  The state of this variant: the screen size \<^verbatim>\<open>LINES\<close>, \<^verbatim>\<open>COLS\<close> of curses, one cell for each
  of the thirteen windows (\<open>None\<close> while it is not allocated), and the configuration the
  reflow reads. The cells of the named windows stand for the global pointers of
  src/mutt_window.c, lines 39-49, together with the windows they point to:
  \<^verbatim>\<open>mutt_window_init\<close> allocates every window separately, so no two pointers alias;
  \<^verbatim>\<open>RootWindow\<close> is \<^verbatim>\<open>w1\<close>. The code is taken with \<^verbatim>\<open>USE_SIDEBAR\<close> defined.
\<close>

record globals_flat =
  LINES :: int
  COLS :: int
  RootWindow_flat :: "MuttWindow_flat option"
  w2_flat :: "MuttWindow_flat option"
  w3_flat :: "MuttWindow_flat option"
  w4_flat :: "MuttWindow_flat option"
  w5_flat :: "MuttWindow_flat option"
  w6_flat :: "MuttWindow_flat option"
  MuttHelpWindow_flat :: "MuttWindow_flat option"
  MuttIndexWindow_flat :: "MuttWindow_flat option"
  MuttMessageWindow_flat :: "MuttWindow_flat option"
  MuttPagerBarWindow_flat :: "MuttWindow_flat option"
  MuttPagerWindow_flat :: "MuttWindow_flat option"
  MuttSidebarWindow_flat :: "MuttWindow_flat option"
  MuttStatusWindow_flat :: "MuttWindow_flat option"
  OptNoCurses_flat :: bool
  C_Help_flat :: bool
  C_StatusOnTop_flat :: bool
  C_SidebarVisible :: bool
  C_SidebarWidth :: int
  C_SidebarOnRight :: bool
  redraw_flat :: "redraw_request list"

text \<open>Reading and writing the window a pointer points to.\<close>

fun window_flat :: "globals_flat \<Rightarrow> pane_flat \<Rightarrow> MuttWindow_flat option" where
  "window_flat g Win_w1 = RootWindow_flat g"
| "window_flat g Win_w2 = w2_flat g"
| "window_flat g Win_w3 = w3_flat g"
| "window_flat g Win_w4 = w4_flat g"
| "window_flat g Win_w5 = w5_flat g"
| "window_flat g Win_w6 = w6_flat g"
| "window_flat g Win_Help = MuttHelpWindow_flat g"
| "window_flat g Win_Index = MuttIndexWindow_flat g"
| "window_flat g Win_Message = MuttMessageWindow_flat g"
| "window_flat g Win_PagerBar = MuttPagerBarWindow_flat g"
| "window_flat g Win_Pager = MuttPagerWindow_flat g"
| "window_flat g Win_Sidebar = MuttSidebarWindow_flat g"
| "window_flat g Win_Status = MuttStatusWindow_flat g"

fun put_window_flat :: "pane_flat \<Rightarrow> MuttWindow_flat \<Rightarrow> globals_flat \<Rightarrow> globals_flat" where
  "put_window_flat Win_w1 w g = g\<lparr>RootWindow_flat := Some w\<rparr>"
| "put_window_flat Win_w2 w g = g\<lparr>w2_flat := Some w\<rparr>"
| "put_window_flat Win_w3 w g = g\<lparr>w3_flat := Some w\<rparr>"
| "put_window_flat Win_w4 w g = g\<lparr>w4_flat := Some w\<rparr>"
| "put_window_flat Win_w5 w g = g\<lparr>w5_flat := Some w\<rparr>"
| "put_window_flat Win_w6 w g = g\<lparr>w6_flat := Some w\<rparr>"
| "put_window_flat Win_Help w g = g\<lparr>MuttHelpWindow_flat := Some w\<rparr>"
| "put_window_flat Win_Index w g = g\<lparr>MuttIndexWindow_flat := Some w\<rparr>"
| "put_window_flat Win_Message w g = g\<lparr>MuttMessageWindow_flat := Some w\<rparr>"
| "put_window_flat Win_PagerBar w g = g\<lparr>MuttPagerBarWindow_flat := Some w\<rparr>"
| "put_window_flat Win_Pager w g = g\<lparr>MuttPagerWindow_flat := Some w\<rparr>"
| "put_window_flat Win_Sidebar w g = g\<lparr>MuttSidebarWindow_flat := Some w\<rparr>"
| "put_window_flat Win_Status w g = g\<lparr>MuttStatusWindow_flat := Some w\<rparr>"

text \<open>
  \<^verbatim>\<open>mutt_window_new\<close> (src/mutt_window.c, lines 59-70): \<^verbatim>\<open>visible\<close>, the offsets and the
  parent keep the zero of \<^verbatim>\<open>mutt_mem_calloc\<close>, the queue of children is empty.
\<close>

definition mutt_window_new_flat ::
  "MuttWindowOrientation \<Rightarrow> MuttWindowSize \<Rightarrow> int \<Rightarrow> int \<Rightarrow> MuttWindow_flat" where
  "mutt_window_new_flat orient' size' rows' cols' =
     \<lparr>visible = False, rows = rows', cols = cols', row_offset = 0, col_offset = 0,
      orient_flat = orient', size_flat = size', parent_flat = None, children_flat = []\<rparr>"

text \<open>
  \<^verbatim>\<open>mutt_window_add_child\<close> (src/mutt_window.c, lines 420-427). The child is appended to
  the parent's queue (exact for a child that is linked nowhere, as every child is in
  \<^verbatim>\<open>mutt_window_init\<close>) and its parent pointer is set.
\<close>

definition mutt_window_add_child_flat ::
  "pane_flat option \<Rightarrow> pane_flat option \<Rightarrow> globals_flat \<Rightarrow> fault + globals_flat" where
  "mutt_window_add_child_flat parent' child g =
     (if parent' = None \<or> child = None then Inr g
      else
        (case window_flat g (the parent') of
           None \<Rightarrow> Inl DanglingDeref
         | Some pw \<Rightarrow>
             let g1 = put_window_flat (the parent')
                        (pw\<lparr>children_flat := children_flat pw @ [the child]\<rparr>) g
             in
             (case window_flat g1 (the child) of
                None \<Rightarrow> Inl DanglingDeref
              | Some cw \<Rightarrow> Inr (put_window_flat (the child) (cw\<lparr>parent_flat := parent'\<rparr>) g1))))"

fun add_children_flat :: "(pane_flat \<times> pane_flat) list \<Rightarrow> globals_flat \<Rightarrow> fault + globals_flat" where
  "add_children_flat [] g = Inr g"
| "add_children_flat ((p, c) # rest) g =
     (case mutt_window_add_child_flat (Some p) (Some c) g of
        Inl e \<Rightarrow> Inl e
      | Inr g1 \<Rightarrow> add_children_flat rest g1)"

text \<open>
  \<^verbatim>\<open>mutt_window_init\<close> (src/mutt_window.c, lines 188-246): the thirteen windows are created
  (lines 193-226, \<^verbatim>\<open>w6\<close> marked invisible at line 211), then linked into the tree by the
  twelve calls of \<^verbatim>\<open>mutt_window_add_child\<close> (lines 230-245), in this order.
\<close>

definition mutt_window_init_flat :: "globals_flat \<Rightarrow> fault + globals_flat" where
  "mutt_window_init_flat g =
     (if RootWindow_flat g \<noteq> None then Inr g
      else
        add_children_flat
          [(Win_w1, Win_w2), (Win_w1, Win_Message),
           (Win_w2, Win_Help), (Win_w2, Win_w3),
           (Win_w3, Win_Sidebar), (Win_w3, Win_w4),
           (Win_w4, Win_w5), (Win_w5, Win_Index), (Win_w5, Win_Status),
           (Win_w4, Win_w6), (Win_w6, Win_Pager), (Win_w6, Win_PagerBar)]
          (g\<lparr>RootWindow_flat :=
                Some (mutt_window_new_flat MUTT_WIN_ORIENT_VERTICAL MUTT_WIN_SIZE_MAXIMISE
                        MUTT_WIN_SIZE_UNLIMITED MUTT_WIN_SIZE_UNLIMITED),
              w2_flat :=
                Some (mutt_window_new_flat MUTT_WIN_ORIENT_VERTICAL MUTT_WIN_SIZE_MAXIMISE
                        MUTT_WIN_SIZE_UNLIMITED MUTT_WIN_SIZE_UNLIMITED),
              w3_flat :=
                Some (mutt_window_new_flat MUTT_WIN_ORIENT_HORIZONTAL MUTT_WIN_SIZE_MAXIMISE
                        MUTT_WIN_SIZE_UNLIMITED MUTT_WIN_SIZE_UNLIMITED),
              w4_flat :=
                Some (mutt_window_new_flat MUTT_WIN_ORIENT_VERTICAL MUTT_WIN_SIZE_MAXIMISE
                        MUTT_WIN_SIZE_UNLIMITED MUTT_WIN_SIZE_UNLIMITED),
              w5_flat :=
                Some (mutt_window_new_flat MUTT_WIN_ORIENT_VERTICAL MUTT_WIN_SIZE_MAXIMISE
                        MUTT_WIN_SIZE_UNLIMITED MUTT_WIN_SIZE_UNLIMITED),
              w6_flat :=
                Some ((mutt_window_new_flat MUTT_WIN_ORIENT_VERTICAL MUTT_WIN_SIZE_MAXIMISE
                         MUTT_WIN_SIZE_UNLIMITED MUTT_WIN_SIZE_UNLIMITED)\<lparr>visible := False\<rparr>),
              MuttHelpWindow_flat :=
                Some (mutt_window_new_flat MUTT_WIN_ORIENT_VERTICAL MUTT_WIN_SIZE_FIXED
                        1 MUTT_WIN_SIZE_UNLIMITED),
              MuttIndexWindow_flat :=
                Some (mutt_window_new_flat MUTT_WIN_ORIENT_VERTICAL MUTT_WIN_SIZE_MAXIMISE
                        MUTT_WIN_SIZE_UNLIMITED MUTT_WIN_SIZE_UNLIMITED),
              MuttMessageWindow_flat :=
                Some (mutt_window_new_flat MUTT_WIN_ORIENT_VERTICAL MUTT_WIN_SIZE_FIXED
                        1 MUTT_WIN_SIZE_UNLIMITED),
              MuttPagerBarWindow_flat :=
                Some (mutt_window_new_flat MUTT_WIN_ORIENT_VERTICAL MUTT_WIN_SIZE_FIXED
                        1 MUTT_WIN_SIZE_UNLIMITED),
              MuttPagerWindow_flat :=
                Some (mutt_window_new_flat MUTT_WIN_ORIENT_VERTICAL MUTT_WIN_SIZE_MAXIMISE
                        MUTT_WIN_SIZE_UNLIMITED MUTT_WIN_SIZE_UNLIMITED),
              MuttSidebarWindow_flat :=
                Some (mutt_window_new_flat MUTT_WIN_ORIENT_HORIZONTAL MUTT_WIN_SIZE_FIXED
                        MUTT_WIN_SIZE_UNLIMITED 20),
              MuttStatusWindow_flat :=
                Some (mutt_window_new_flat MUTT_WIN_ORIENT_VERTICAL MUTT_WIN_SIZE_FIXED
                        1 MUTT_WIN_SIZE_UNLIMITED)\<rparr>))"

text \<open>
  \<^verbatim>\<open>mutt_window_copy_size\<close> (src/mutt_window.c, lines 304-313), on windows: the destination
  with the four geometry fields of the source.
\<close>

definition mutt_window_copy_size_flat :: "MuttWindow_flat \<Rightarrow> MuttWindow_flat \<Rightarrow> MuttWindow_flat" where
  "mutt_window_copy_size_flat win_src win_dst =
     win_dst\<lparr>rows := rows win_src, cols := cols win_src,
             row_offset := row_offset win_src, col_offset := col_offset win_src\<rparr>"

text \<open>
  \<^verbatim>\<open>mutt_window_reflow\<close> (src/mutt_window.c, lines 318-366). The Status, Help, Message and
  Index windows are written through their pointers in every run that gets past
  \<^verbatim>\<open>OptNoCurses\<close>, the Sidebar when \<^verbatim>\<open>C_SidebarVisible\<close> is set; a null pointer among them is a
  fault. \<^verbatim>\<open>MAX(a, 0)\<close> is \<open>max a 0\<close>.
\<close>

definition mutt_window_reflow_flat :: "globals_flat \<Rightarrow> fault + globals_flat" where
  "mutt_window_reflow_flat g =
     (if OptNoCurses_flat g then Inr g
      else
        (case (MuttStatusWindow_flat g, MuttHelpWindow_flat g, MuttMessageWindow_flat g,
               MuttIndexWindow_flat g) of
           (Some status0, Some help0, Some message0, Some index0) \<Rightarrow>
             let status = status0\<lparr>rows := 1, cols := COLS g,
                                  row_offset := (if C_StatusOnTop_flat g then 0 else LINES g - 2),
                                  col_offset := 0\<rparr>;
                 help1 = mutt_window_copy_size_flat status help0;
                 help = (if C_Help_flat g
                         then help1\<lparr>row_offset := (if C_StatusOnTop_flat g then LINES g - 2 else 0)\<rparr>
                         else help1\<lparr>rows := 0\<rparr>);
                 message = (mutt_window_copy_size_flat status message0)\<lparr>row_offset := LINES g - 1\<rparr>;
                 index1 = mutt_window_copy_size_flat status index0;
                 index2 = index1\<lparr>rows := max (LINES g - rows status - rows help - rows message) 0\<rparr>;
                 index3 = index2\<lparr>row_offset :=
                                   (if C_StatusOnTop_flat g then rows status else rows help)\<rparr>;
                 g1 = g\<lparr>MuttStatusWindow_flat := Some status, MuttHelpWindow_flat := Some help,
                        MuttMessageWindow_flat := Some message, MuttIndexWindow_flat := Some index3\<rparr>;
                 done = (\<lambda>g'. g'\<lparr>redraw_flat := redraw_flat g' @ [REDRAW_FULL, REDRAW_FLOW]\<rparr>)
             in
             if C_SidebarVisible g then
               (case MuttSidebarWindow_flat g of
                  None \<Rightarrow> Inl NullDeref
                | Some sidebar0 \<Rightarrow>
                    let sidebar1 = (mutt_window_copy_size_flat index3 sidebar0)
                                     \<lparr>cols := C_SidebarWidth g\<rparr>;
                        index4 = index3\<lparr>cols := cols index3 - C_SidebarWidth g\<rparr>;
                        sidebar = (if C_SidebarOnRight g
                                   then sidebar1\<lparr>col_offset := COLS g - C_SidebarWidth g\<rparr>
                                   else sidebar1);
                        index = (if C_SidebarOnRight g
                                 then index4
                                 else index4\<lparr>col_offset := col_offset index4 + C_SidebarWidth g\<rparr>)
                    in Inr (done (g1\<lparr>MuttSidebarWindow_flat := Some sidebar,
                                     MuttIndexWindow_flat := Some index\<rparr>)))
             else Inr (done g1)
         | _ \<Rightarrow> Inl NullDeref))"

text \<open>\<^verbatim>\<open>mutt_window_reflow_message_rows\<close> (src/mutt_window.c, lines 374-395).\<close>

definition mutt_window_reflow_message_rows_flat :: "int \<Rightarrow> globals_flat \<Rightarrow> fault + globals_flat" where
  "mutt_window_reflow_message_rows_flat mw_rows g =
     (case (MuttMessageWindow_flat g, MuttStatusWindow_flat g, MuttHelpWindow_flat g,
            MuttIndexWindow_flat g) of
        (Some message0, Some status0, Some help0, Some index0) \<Rightarrow>
          let message = message0\<lparr>rows := mw_rows, row_offset := LINES g - mw_rows\<rparr>;
              status = status0\<lparr>row_offset :=
                                 (if C_StatusOnTop_flat g then 0 else LINES g - mw_rows - 1)\<rparr>;
              help = (if C_Help_flat g
                      then help0\<lparr>row_offset :=
                                   (if C_StatusOnTop_flat g then LINES g - mw_rows - 1 else 0)\<rparr>
                      else help0);
              index = index0\<lparr>rows := max (LINES g - rows status - rows help - rows message) 0\<rparr>;
              g1 = g\<lparr>MuttMessageWindow_flat := Some message, MuttStatusWindow_flat := Some status,
                     MuttHelpWindow_flat := Some help, MuttIndexWindow_flat := Some index\<rparr>;
              done = (\<lambda>g'. g'\<lparr>redraw_flat := redraw_flat g' @ [REDRAW_FULL]\<rparr>)
          in
          if C_SidebarVisible g then
            (case MuttSidebarWindow_flat g of
               None \<Rightarrow> Inl NullDeref
             | Some sidebar0 \<Rightarrow>
                 Inr (done (g1\<lparr>MuttSidebarWindow_flat := Some (sidebar0\<lparr>rows := rows index\<rparr>)\<rparr>)))
          else Inr (done g1)
      | _ \<Rightarrow> Inl NullDeref)"

text \<open>
  The tiling property as the claim words it, on the tree that \<^verbatim>\<open>mutt_window_init\<close> builds:
  for every window with children, the extents of its visible children along its
  orientation (rows for a vertical parent, columns for a horizontal one) add up to its own
  extent along that axis, and no two visible children overlap. Invisible children take no
  space. A window covers the rows from \<open>row_offset\<close> up to, not including,
  \<open>row_offset + rows\<close>, and the columns likewise; two windows overlap when they share a
  cell. \<open>vis\<close> says which windows count as visible.
\<close>

definition overlap :: "MuttWindow_flat \<Rightarrow> MuttWindow_flat \<Rightarrow> bool" where
  "overlap a b =
     (max (row_offset a) (row_offset b) < min (row_offset a + rows a) (row_offset b + rows b) \<and>
      max (col_offset a) (col_offset b) < min (col_offset a + cols a) (col_offset b + cols b))"

fun apart :: "MuttWindow_flat list \<Rightarrow> bool" where
  "apart [] = True"
| "apart (w # ws) = (list_all (\<lambda>v. \<not> overlap w v) ws \<and> apart ws)"

definition extent_flat :: "MuttWindowOrientation \<Rightarrow> MuttWindow_flat \<Rightarrow> int" where
  "extent_flat axis w =
     (case axis of MUTT_WIN_ORIENT_VERTICAL \<Rightarrow> rows w | MUTT_WIN_ORIENT_HORIZONTAL \<Rightarrow> cols w)"

definition visible_children_flat ::
  "(MuttWindow_flat \<Rightarrow> bool) \<Rightarrow> globals_flat \<Rightarrow> MuttWindow_flat \<Rightarrow> MuttWindow_flat list" where
  "visible_children_flat vis g w =
     filter vis (List.map_filter (window_flat g) (children_flat w))"

definition parent_tiled :: "(MuttWindow_flat \<Rightarrow> bool) \<Rightarrow> globals_flat \<Rightarrow> pane_flat \<Rightarrow> bool" where
  "parent_tiled vis g p =
     (case window_flat g p of
        None \<Rightarrow> True
      | Some w \<Rightarrow>
          children_flat w = [] \<or>
          (sum_list (map (extent_flat (orient_flat w)) (visible_children_flat vis g w)) =
             extent_flat (orient_flat w) w \<and>
           apart (visible_children_flat vis g w)))"

definition all_panes_flat :: "pane_flat list" where
  "all_panes_flat =
     [Win_w1, Win_w2, Win_w3, Win_w4, Win_w5, Win_w6, Win_Help, Win_Index, Win_Message,
      Win_PagerBar, Win_Pager, Win_Sidebar, Win_Status]"

definition tree_tiled :: "(MuttWindow_flat \<Rightarrow> bool) \<Rightarrow> globals_flat \<Rightarrow> bool" where
  "tree_tiled vis g = list_all (parent_tiled vis g) all_panes_flat"

text \<open>
  The tiling that the reflow of this variant aims at. It lays the named windows out
  against the screen, not against their parents: Status, Help (when \<^verbatim>\<open>C_Help\<close> is set), Index
  and Message are stacked along the rows of the screen, Sidebar (when \<^verbatim>\<open>C_SidebarVisible\<close>
  is set) and Index along its columns. No function of this variant sets the field
  \<^verbatim>\<open>visible\<close> to true or reads it: which windows are shown is decided by the configuration
  alone. The shown windows tile the screen when each of them has extents that are not
  negative and lies within the screen, their row extents add up to \<^verbatim>\<open>LINES\<close>, the column
  extents of Sidebar and Index add up to \<^verbatim>\<open>COLS\<close>, and no two of them overlap.
\<close>

definition shown_flat :: "globals_flat \<Rightarrow> MuttWindow_flat option list" where
  "shown_flat g =
     [MuttStatusWindow_flat g] @ (if C_Help_flat g then [MuttHelpWindow_flat g] else []) @
     [MuttIndexWindow_flat g, MuttMessageWindow_flat g] @
     (if C_SidebarVisible g then [MuttSidebarWindow_flat g] else [])"

definition rows_of :: "MuttWindow_flat option \<Rightarrow> int" where
  "rows_of w = (case w of None \<Rightarrow> 0 | Some x \<Rightarrow> rows x)"

definition cols_of :: "MuttWindow_flat option \<Rightarrow> int" where
  "cols_of w = (case w of None \<Rightarrow> 0 | Some x \<Rightarrow> cols x)"

definition inside_screen :: "globals_flat \<Rightarrow> MuttWindow_flat \<Rightarrow> bool" where
  "inside_screen g w =
     (0 \<le> rows w \<and> 0 \<le> row_offset w \<and> row_offset w + rows w \<le> LINES g \<and>
      0 \<le> cols w \<and> 0 \<le> col_offset w \<and> col_offset w + cols w \<le> COLS g)"

definition tiles_screen :: "globals_flat \<Rightarrow> bool" where
  "tiles_screen g =
     (None \<notin> set (shown_flat g) \<and>
      list_all (inside_screen g) (map the (shown_flat g)) \<and>
      rows_of (MuttStatusWindow_flat g) + (if C_Help_flat g then rows_of (MuttHelpWindow_flat g) else 0) +
        rows_of (MuttIndexWindow_flat g) + rows_of (MuttMessageWindow_flat g) = LINES g \<and>
      (if C_SidebarVisible g then cols_of (MuttSidebarWindow_flat g) else 0) +
        cols_of (MuttIndexWindow_flat g) = COLS g \<and>
      apart (map the (shown_flat g)))"

text \<open>
  Concrete states of this variant: the state before \<^verbatim>\<open>mutt_window_init\<close> on a screen of the
  given size, with the help line on, the status line at the bottom and a sidebar of the
  given width, visible or not; and the state \<^verbatim>\<open>mutt_window_init\<close> makes of it.
\<close>

definition blank_flat :: "int \<Rightarrow> int \<Rightarrow> bool \<Rightarrow> int \<Rightarrow> globals_flat" where
  "blank_flat lines' cols' sidebar width =
     \<lparr>LINES = lines', COLS = cols', RootWindow_flat = None, w2_flat = None, w3_flat = None,
      w4_flat = None, w5_flat = None, w6_flat = None, MuttHelpWindow_flat = None,
      MuttIndexWindow_flat = None, MuttMessageWindow_flat = None,
      MuttPagerBarWindow_flat = None, MuttPagerWindow_flat = None,
      MuttSidebarWindow_flat = None, MuttStatusWindow_flat = None,
      OptNoCurses_flat = False, C_Help_flat = True, C_StatusOnTop_flat = False,
      C_SidebarVisible = sidebar, C_SidebarWidth = width, C_SidebarOnRight = False,
      redraw_flat = []\<rparr>"

definition startup_flat :: "int \<Rightarrow> int \<Rightarrow> bool \<Rightarrow> int \<Rightarrow> globals_flat" where
  "startup_flat lines' cols' sidebar width =
     (case mutt_window_init_flat (blank_flat lines' cols' sidebar width) of
        Inl _ \<Rightarrow> blank_flat lines' cols' sidebar width
      | Inr g \<Rightarrow> g)"

text \<open>
  Concrete states of the tree variant: nothing initialised yet; and \<open>layout0\<close> with the help
  line switched off and the status line moved to the top, before and after
  \<^verbatim>\<open>mutt_window_reflow_message_rows\<close> has stored three message rows and
  \<^verbatim>\<open>mutt_window_reflow_prep\<close> has run.
\<close>

definition globals_null :: globals where
  "globals_null =
     \<lparr>heap = Map.empty, RootWindow = None, MuttDialogWindow = None, MuttHelpWindow = None,
      MuttIndexWindow = None, MuttMessageWindow = None, MuttPagerBarWindow = None,
      MuttPagerWindow = None, MuttSidebarWindow = None, MuttStatusWindow = None,
      OptNoCurses = False, C_Help = True, C_StatusOnTop = False, C_PagerIndexLines = 0,
      redraw = []\<rparr>"

definition layout0_cfg :: globals where
  "layout0_cfg = layout0\<lparr>C_Help := False, C_StatusOnTop := True\<rparr>"

definition layout0_prepped :: globals where
  "layout0_prepped =
     layout0_cfg
       \<lparr>heap :=
          (heap layout0_cfg)
            (0 \<mapsto> (mutt_window_new MUTT_WIN_ORIENT_VERTICAL MUTT_WIN_SIZE_FIXED 0 0)
                   \<lparr>children := [2, 3, 1], name := Some ''Root''\<rparr>,
             1 \<mapsto> (mutt_window_new MUTT_WIN_ORIENT_VERTICAL MUTT_WIN_SIZE_FIXED 1 MUTT_WIN_SIZE_UNLIMITED)
                   \<lparr>state := zero_WindowState, parent := Some 0, name := Some ''Help''\<rparr>,
             3 \<mapsto> (mutt_window_new MUTT_WIN_ORIENT_VERTICAL MUTT_WIN_SIZE_FIXED 3 MUTT_WIN_SIZE_UNLIMITED)
                   \<lparr>parent := Some 0, name := Some ''Message''\<rparr>)\<rparr>"

text \<open>A dialog that exists but has no root window.\<close>

definition dialog_null_root :: Dialog where
  "dialog_null_root = \<lparr>root = None\<rparr>"

text \<open>
  The root window after \<^verbatim>\<open>mutt_window_set_root\<close> has stored the dimensions that differ
  (part_001, lines 451-461).
\<close>

definition root_resized :: "MuttWindow \<Rightarrow> int \<Rightarrow> int \<Rightarrow> MuttWindow" where
  "root_resized w rows' cols' =
     w\<lparr>state := (state w)
          \<lparr>rows := (if rows (state w) \<noteq> rows' then to_short rows' else rows (state w)),
           cols := (if cols (state w) \<noteq> cols' then to_short cols' else cols (state w))\<rparr>\<rparr>"

text \<open>
  An engine that lays nothing out and returns the state it is given; it stands in for
  \<^verbatim>\<open>window_reflow\<close> where a closed example needs some engine.
\<close>

definition idle_engine :: reflow_engine where
  "idle_engine win g = Inr g"

section \<open>Theorems\<close>

subsection \<open>The wrap column\<close>

text \<open>
  C7. As stated the claim is false: for a negative \<open>wrap\<close> whose margin is at least the
  width, the function returns the full width, not the width minus the margin.
\<close>

theorem wrap_cols_negative_counterexample:
  "mutt_window_wrap_cols 5 (- 10) \<noteq> 5 - \<bar>- 10\<bar>"
  by (simp add: mutt_window_wrap_cols_def)

text \<open>
  C7 (amended). \<^verbatim>\<open>mutt_window_wrap_cols\<close> returns the smaller of width and wrap when wrap
  is positive; the width minus a right margin of \<open>|wrap|\<close> columns when wrap is negative
  and the width exceeds that margin; the full width when wrap is negative and the margin
  is at least the width; and the full width when wrap is zero.
\<close>

theorem wrap_cols_spec:
  "mutt_window_wrap_cols width wrap =
     (if 0 < wrap then min width wrap
      else if wrap < 0 then (if \<bar>wrap\<bar> < width then width - \<bar>wrap\<bar> else width)
      else width)"
  by (simp add: mutt_window_wrap_cols_def min_def)

subsection \<open>The dialog stack\<close>

text \<open>What the primitives of the store change, seen through the views.\<close>

lemma same_but_heap_refl: "same_but_heap g g"
  by (simp add: same_but_heap_def)

lemma same_but_heap_trans: "same_but_heap g2 g1 \<Longrightarrow> same_but_heap g1 g \<Longrightarrow> same_but_heap g2 g"
  unfolding same_but_heap_def by (metis globals.surjective globals.update_convs(1))

lemma same_but_heap_dialog: "same_but_heap g' g \<Longrightarrow> MuttDialogWindow g' = MuttDialogWindow g"
  unfolding same_but_heap_def by (metis globals.select_convs(3) globals.surjective globals.update_convs(1))

lemma set_visible_effect:
  assumes "heap g a \<noteq> None"
  shows "\<exists>g'. set_visible (Some a) b g = Inr g' \<and> same_but_heap g' g \<and>
           dom (heap g') = dom (heap g) \<and>
           (\<forall>x. is_visible g' x = (if x = a then b else is_visible g x)) \<and>
           (\<forall>x. kids g' x = kids g x) \<and>
           (\<forall>x. map_option pane_geometry (heap g' x) = map_option pane_geometry (heap g x))"
  using assms
  by (auto simp: set_visible_def deref_def store_def same_but_heap_def is_visible_def kids_def
      pane_geometry_def geometry_def)

lemma insert_tail_effect:
  assumes "kids g p = Some st" "heap g e \<noteq> None" "e \<notin> set st"
  shows "\<exists>g'. TAILQ_INSERT_TAIL (Some p) (Some e) g = Inr g' \<and> same_but_heap g' g \<and>
           dom (heap g') = dom (heap g) \<and>
           (\<forall>x. is_visible g' x = is_visible g x) \<and>
           (\<forall>x. kids g' x = (if x = p then Some (st @ [e]) else kids g x)) \<and>
           (\<forall>x. map_option pane_geometry (heap g' x) = map_option pane_geometry (heap g x))"
  using assms
  by (auto simp: TAILQ_INSERT_TAIL_def deref_def store_def same_but_heap_def is_visible_def kids_def
      pane_geometry_def geometry_def)

lemma remove_effect:
  assumes "kids g p = Some st" "heap g e \<noteq> None" "e \<in> set st"
  shows "\<exists>g'. TAILQ_REMOVE (Some p) (Some e) g = Inr g' \<and> same_but_heap g' g \<and>
           dom (heap g') = dom (heap g) \<and>
           (\<forall>x. is_visible g' x = is_visible g x) \<and>
           (\<forall>x. kids g' x = (if x = p then Some (remove1 e st) else kids g x)) \<and>
           (\<forall>x. map_option pane_geometry (heap g' x) = map_option pane_geometry (heap g x))"
  using assms
  by (auto simp: TAILQ_REMOVE_def deref_def store_def same_but_heap_def is_visible_def kids_def
      pane_geometry_def geometry_def)

lemma deref_kids: "kids g c = Some st \<Longrightarrow> \<exists>cw. deref g (Some c) = Inr cw \<and> children cw = st"
  by (auto simp: kids_def deref_def)

lemma dialog_children_kids:
  "MuttDialogWindow g = Some c \<Longrightarrow> kids g c = Some st \<Longrightarrow> dialog_children g = st"
  by (auto simp: dialog_children_def kids_def deref_def)

lemma dialog_push_effect:
  assumes c: "MuttDialogWindow g = Some c" and k: "kids g c = Some st"
    and r: "root d = Some r" "heap g r \<noteq> None" "r \<notin> set st"
    and l: "st \<noteq> [] \<longrightarrow> heap g (last st) \<noteq> None"
  shows "\<exists>g'. dialog_push (Some d) g = Inr g' \<and> same_but_heap g' g \<and>
           dom (heap g') = dom (heap g) \<and>
           (\<forall>x. is_visible g' x =
              (if x = r then True else if st \<noteq> [] \<and> x = last st then False else is_visible g x)) \<and>
           (\<forall>x. kids g' x = (if x = c then Some (st @ [r]) else kids g x)) \<and>
           (\<forall>x. map_option pane_geometry (heap g' x) = map_option pane_geometry (heap g x))"
proof -
  obtain cw where cw: "deref g (Some c) = Inr cw" "children cw = st"
    using deref_kids [OF k] by blast
  obtain g1 where g1: "(case TAILQ_LAST st of None \<Rightarrow> Inr g | Some l \<Rightarrow> set_visible (Some l) False g) = Inr g1"
    "same_but_heap g1 g" "dom (heap g1) = dom (heap g)"
    "\<forall>x. is_visible g1 x = (if st \<noteq> [] \<and> x = last st then False else is_visible g x)"
    "\<forall>x. kids g1 x = kids g x"
    "\<forall>x. map_option pane_geometry (heap g1 x) = map_option pane_geometry (heap g x)"
  proof (cases "st = []")
    case True
    then show ?thesis using that [of g] by (simp add: TAILQ_LAST_def same_but_heap_refl)
  next
    case False
    with l have "heap g (last st) \<noteq> None" by simp
    from set_visible_effect [OF this, of False] False show ?thesis
      using that by (auto simp: TAILQ_LAST_def)
  qed
  have c1: "MuttDialogWindow g1 = Some c" using g1(2) c by (simp add: same_but_heap_dialog)
  have k1: "kids g1 c = Some st" using g1(5) k by simp
  have r1: "heap g1 r \<noteq> None" using g1(3) r(2) by (metis domIff)
  obtain g2 where g2: "TAILQ_INSERT_TAIL (Some c) (Some r) g1 = Inr g2"
    "same_but_heap g2 g1" "dom (heap g2) = dom (heap g1)"
    "\<forall>x. is_visible g2 x = is_visible g1 x"
    "\<forall>x. kids g2 x = (if x = c then Some (st @ [r]) else kids g1 x)"
    "\<forall>x. map_option pane_geometry (heap g2 x) = map_option pane_geometry (heap g1 x)"
    using insert_tail_effect [OF k1 r1 r(3)] by blast
  have r2: "heap g2 r \<noteq> None" using g2(3) r1 by (metis domIff)
  obtain g3 where g3: "set_visible (Some r) True g2 = Inr g3"
    "same_but_heap g3 g2" "dom (heap g3) = dom (heap g2)"
    "\<forall>x. is_visible g3 x = (if x = r then True else is_visible g2 x)"
    "\<forall>x. kids g3 x = kids g2 x"
    "\<forall>x. map_option pane_geometry (heap g3 x) = map_option pane_geometry (heap g2 x)"
    using set_visible_effect [OF r2, of True] by blast
  have run: "dialog_push (Some d) g = Inr g3"
    using c cw g1(1) c1 g2(1) g3(1) r(1) by (simp add: dialog_push_def)
  have sb: "same_but_heap g3 g"
    using g3(2) g2(2) g1(2) by (blast intro: same_but_heap_trans)
  show ?thesis
    using run sb g1(3-6) g2(3-6) g3(3-6) by simp
qed

lemma dialog_pop_effect:
  assumes c: "MuttDialogWindow g = Some c" and k: "kids g c = Some (xs @ [l])"
    and d: "l \<notin> set xs"
    and l: "heap g l \<noteq> None" "xs \<noteq> [] \<longrightarrow> heap g (last xs) \<noteq> None"
  shows "\<exists>g'. dialog_pop g = Inr g' \<and> same_but_heap g' g \<and>
           dom (heap g') = dom (heap g) \<and>
           (\<forall>x. is_visible g' x =
              (if xs \<noteq> [] \<and> x = last xs then True else if x = l then False else is_visible g x)) \<and>
           (\<forall>x. kids g' x = (if x = c then Some xs else kids g x)) \<and>
           (\<forall>x. map_option pane_geometry (heap g' x) = map_option pane_geometry (heap g x))"
proof -
  obtain cw where cw: "deref g (Some c) = Inr cw" "children cw = xs @ [l]"
    using deref_kids [OF k] by blast
  obtain g1 where g1: "set_visible (Some l) False g = Inr g1"
    "same_but_heap g1 g" "dom (heap g1) = dom (heap g)"
    "\<forall>x. is_visible g1 x = (if x = l then False else is_visible g x)"
    "\<forall>x. kids g1 x = kids g x"
    "\<forall>x. map_option pane_geometry (heap g1 x) = map_option pane_geometry (heap g x)"
    using set_visible_effect [OF l(1), of False] by blast
  have c1: "MuttDialogWindow g1 = Some c" using g1(2) c by (simp add: same_but_heap_dialog)
  have k1: "kids g1 c = Some (xs @ [l])" using g1(5) k by simp
  have l1: "heap g1 l \<noteq> None" using g1(3) l(1) by (metis domIff)
  have rm: "remove1 l (xs @ [l]) = xs" using d by (simp add: remove1_append)
  obtain g2 where g2: "TAILQ_REMOVE (Some c) (Some l) g1 = Inr g2"
    "same_but_heap g2 g1" "dom (heap g2) = dom (heap g1)"
    "\<forall>x. is_visible g2 x = is_visible g1 x"
    "\<forall>x. kids g2 x = (if x = c then Some xs else kids g1 x)"
    "\<forall>x. map_option pane_geometry (heap g2 x) = map_option pane_geometry (heap g1 x)"
    using remove_effect [OF k1 l1, simplified rm] by auto
  have c2: "MuttDialogWindow g2 = Some c" using g2(2) c1 by (simp add: same_but_heap_dialog)
  have k2: "kids g2 c = Some xs" using g2(5) by simp
  obtain cw2 where cw2: "deref g2 (Some c) = Inr cw2" "children cw2 = xs"
    using deref_kids [OF k2] by blast
  obtain g3 where g3: "(case TAILQ_LAST xs of None \<Rightarrow> Inr g2 | Some l2 \<Rightarrow> set_visible (Some l2) True g2) = Inr g3"
    "same_but_heap g3 g2" "dom (heap g3) = dom (heap g2)"
    "\<forall>x. is_visible g3 x = (if xs \<noteq> [] \<and> x = last xs then True else is_visible g2 x)"
    "\<forall>x. kids g3 x = kids g2 x"
    "\<forall>x. map_option pane_geometry (heap g3 x) = map_option pane_geometry (heap g2 x)"
  proof (cases "xs = []")
    case True
    then show ?thesis using that [of g2] by (simp add: TAILQ_LAST_def same_but_heap_refl)
  next
    case False
    with l(2) have "heap g (last xs) \<noteq> None" by simp
    then have "heap g2 (last xs) \<noteq> None" using g1(3) g2(3) by (metis domIff)
    from set_visible_effect [OF this, of True] False show ?thesis
      using that by (auto simp: TAILQ_LAST_def)
  qed
  have run: "dialog_pop g = Inr g3"
    using c cw g1(1) c1 g2(1) c2 cw2 g3(1) by (simp add: dialog_pop_def TAILQ_LAST_def)
  have sb: "same_but_heap g3 g"
    using g3(2) g2(2) g1(2) by (blast intro: same_but_heap_trans)
  show ?thesis
    using run sb g1(3-6) g2(3-6) g3(3-6) by simp
qed

lemma dialog_pop_empty:
  "MuttDialogWindow g = Some c \<Longrightarrow> kids g c = Some [] \<Longrightarrow> dialog_pop g = Inr g"
  by (auto simp: dialog_pop_def kids_def deref_def TAILQ_LAST_def)


lemma heap_dom_eq: "dom (heap g') = dom (heap g) \<Longrightarrow> (heap g' a \<noteq> None) = (heap g a \<noteq> None)"
  by (metis domIff)

lemma push_ok_dom: "dom (heap g') = dom (heap g) \<Longrightarrow> push_ok g' x st = push_ok g x st"
proof (cases x)
  case (Push dlg)
  assume d: "dom (heap g') = dom (heap g)"
  show ?thesis
  proof (cases dlg)
    case None
    with Push show ?thesis by simp
  next
    case (Some d')
    with Push show ?thesis using heap_dom_eq [OF d] by (cases "root d'") simp_all
  qed
next
  case Pop
  then show ?thesis by simp
qed

lemma run_ok_dom: "dom (heap g') = dom (heap g) \<Longrightarrow> run_ok g' xs st = run_ok g xs st"
proof (induction xs arbitrary: st)
  case Nil
  show ?case by simp
next
  case (Cons x xs)
  from Cons.prems have "push_ok g' x st = push_ok g x st" by (rule push_ok_dom)
  moreover from Cons.prems have "run_ok g' xs (lifo_step x st) = run_ok g xs (lifo_step x st)"
    by (rule Cons.IH)
  ultimately show ?case by simp
qed

lemma in_butlast_if: "a \<in> set st \<Longrightarrow> a \<noteq> last st \<Longrightarrow> a \<in> set (butlast st)"
  by (cases st rule: rev_cases) auto

lemma stack_inv_push:
  assumes inv: "stack_inv g st" and r: "root d = Some r" "heap g r \<noteq> None" "r \<notin> set st"
  shows "\<exists>g'. dialog_push (Some d) g = Inr g' \<and> stack_inv g' (st @ [r]) \<and> dom (heap g') = dom (heap g)"
proof -
  from inv obtain c where c: "MuttDialogWindow g = Some c" "kids g c = Some st"
    "distinct st" "\<forall>a \<in> set st. heap g a \<noteq> None"
    "\<forall>a \<in> set (butlast st). \<not> is_visible g a"
    unfolding stack_inv_def by blast
  have l: "st \<noteq> [] \<longrightarrow> heap g (last st) \<noteq> None" using c(4) by simp
  from dialog_push_effect [OF c(1,2) r l]
  obtain g' where g': "dialog_push (Some d) g = Inr g'" "same_but_heap g' g"
    "dom (heap g') = dom (heap g)"
    "\<forall>x. is_visible g' x =
        (if x = r then True else if st \<noteq> [] \<and> x = last st then False else is_visible g x)"
    "\<forall>x. kids g' x = (if x = c then Some (st @ [r]) else kids g x)"
    by blast
  have "MuttDialogWindow g' = Some c" using g'(2) c(1) by (simp add: same_but_heap_dialog)
  moreover have "kids g' c = Some (st @ [r])" using g'(5) by simp
  moreover have "distinct (st @ [r])" using c(3) r(3) by simp
  moreover have "\<forall>a \<in> set (st @ [r]). heap g' a \<noteq> None"
  proof
    fix a assume "a \<in> set (st @ [r])"
    then have "heap g a \<noteq> None" using c(4) r(2) by auto
    then show "heap g' a \<noteq> None" using heap_dom_eq [OF g'(3), of a] by simp
  qed
  moreover have "\<forall>a \<in> set (butlast (st @ [r])). \<not> is_visible g' a"
  proof
    fix a assume "a \<in> set (butlast (st @ [r]))"
    then have a: "a \<in> set st" by simp
    then have ne: "a \<noteq> r" "st \<noteq> []" using r(3) by auto
    show "\<not> is_visible g' a"
    proof (cases "a = last st")
      case True
      then show ?thesis using g'(4) ne by simp
    next
      case False
      then have "a \<in> set (butlast st)" using a ne(2)
        by (simp add: in_butlast_if)
      then show ?thesis using g'(4) ne c(5) False by simp
    qed
  qed
  moreover have "is_visible g' (last (st @ [r]))" using g'(4) by simp
  ultimately have "stack_inv g' (st @ [r])" unfolding stack_inv_def by blast
  then show ?thesis using g'(1,3) by blast
qed


lemma stack_inv_pop:
  assumes inv: "stack_inv g st"
  shows "\<exists>g'. dialog_pop g = Inr g' \<and> stack_inv g' (butlast st) \<and> dom (heap g') = dom (heap g)"
proof (cases st rule: rev_cases)
  case Nil
  with inv obtain c where "MuttDialogWindow g = Some c" "kids g c = Some []"
    unfolding stack_inv_def by blast
  then have "dialog_pop g = Inr g" by (rule dialog_pop_empty)
  then show ?thesis using inv Nil by simp
next
  case (snoc xs l)
  from inv obtain c where c: "MuttDialogWindow g = Some c" "kids g c = Some (xs @ [l])"
    "distinct (xs @ [l])" "\<forall>a \<in> set (xs @ [l]). heap g a \<noteq> None"
    "\<forall>a \<in> set xs. \<not> is_visible g a"
    unfolding stack_inv_def snoc by auto
  have d: "l \<notin> set xs" using c(3) by simp
  have l: "heap g l \<noteq> None" "xs \<noteq> [] \<longrightarrow> heap g (last xs) \<noteq> None" using c(4) by simp_all
  from dialog_pop_effect [OF c(1,2) d l]
  obtain g' where g': "dialog_pop g = Inr g'" "same_but_heap g' g"
    "dom (heap g') = dom (heap g)"
    "\<forall>x. is_visible g' x =
        (if xs \<noteq> [] \<and> x = last xs then True else if x = l then False else is_visible g x)"
    "\<forall>x. kids g' x = (if x = c then Some xs else kids g x)"
    by blast
  have "MuttDialogWindow g' = Some c" using g'(2) c(1) by (simp add: same_but_heap_dialog)
  moreover have "kids g' c = Some xs" using g'(5) by simp
  moreover have "distinct xs" using c(3) by simp
  moreover have "\<forall>a \<in> set xs. heap g' a \<noteq> None"
  proof
    fix a assume "a \<in> set xs"
    then have "heap g a \<noteq> None" using c(4) by auto
    then show "heap g' a \<noteq> None" using heap_dom_eq [OF g'(3), of a] by simp
  qed
  moreover have "\<forall>a \<in> set (butlast xs). \<not> is_visible g' a"
  proof
    fix a assume a: "a \<in> set (butlast xs)"
    then have ax: "a \<in> set xs" by (rule in_set_butlastD)
    have "xs \<noteq> []" using a by auto
    moreover have "a \<noteq> last xs" using a \<open>distinct xs\<close> \<open>xs \<noteq> []\<close>
      by (metis append_butlast_last_id distinct_append distinct.simps(2) disjoint_iff list.set_intros(1))
    ultimately show "\<not> is_visible g' a" using g'(4) c(5) ax by simp
  qed
  moreover have "xs \<noteq> [] \<longrightarrow> is_visible g' (last xs)" using g'(4) by simp
  ultimately have "stack_inv g' xs" unfolding stack_inv_def by blast
  then show ?thesis using g'(1,3) snoc by simp
qed

lemma dialog_push_null: "dialog_push None g = Inr g"
  by (simp add: dialog_push_def)

lemma stack_inv_run:
  "stack_inv g st \<Longrightarrow> run_ok g ops st \<Longrightarrow>
     \<exists>g'. dialog_run ops g = Inr g' \<and> stack_inv g' (lifo ops st)"
proof (induction ops arbitrary: g st)
  case Nil
  then show ?case by simp
next
  case (Cons x xs)
  have "\<exists>g1. dialog_step x g = Inr g1 \<and> stack_inv g1 (lifo_step x st) \<and> dom (heap g1) = dom (heap g)"
  proof (cases x)
    case Pop
    then show ?thesis using stack_inv_pop [OF Cons.prems(1)] by simp
  next
    case (Push dlg)
    show ?thesis
    proof (cases dlg)
      case None
      then show ?thesis using Push Cons.prems(1) by (simp add: dialog_push_null)
    next
      case (Some d)
      with Push Cons.prems(2) obtain r where r: "root d = Some r" "heap g r \<noteq> None" "r \<notin> set st"
        by (auto split: option.splits)
      from stack_inv_push [OF Cons.prems(1) r] show ?thesis using Push Some r(1) by simp
    qed
  qed
  then obtain g1 where g1: "dialog_step x g = Inr g1" "stack_inv g1 (lifo_step x st)"
    "dom (heap g1) = dom (heap g)" by blast
  have "run_ok g1 xs (lifo_step x st)"
    using Cons.prems(2) run_ok_dom [OF g1(3), of xs "lifo_step x st"] by simp
  from Cons.IH [OF g1(2) this] show ?case using g1(1) by simp
qed

lemma stack_inv_visible:
  assumes "stack_inv g st"
  shows "dialog_children g = st \<and> visible_dialogs g = (if st = [] then [] else [last st])"
proof -
  from assms obtain c where c: "MuttDialogWindow g = Some c" "kids g c = Some st"
    "\<forall>a \<in> set (butlast st). \<not> is_visible g a" "st \<noteq> [] \<longrightarrow> is_visible g (last st)"
    unfolding stack_inv_def by blast
  have dc: "dialog_children g = st" using c(1,2) by (rule dialog_children_kids)
  have "filter (is_visible g) st = (if st = [] then [] else [last st])"
  proof (cases st rule: rev_cases)
    case Nil
    then show ?thesis by simp
  next
    case (snoc xs l)
    then show ?thesis using c(3,4) by simp
  qed
  then show ?thesis using dc by (simp add: visible_dialogs_def)
qed



lemma layout0_simps:
  "MuttDialogWindow layout0 = Some 2" "kids layout0 2 = Some []"
  "heap layout0 4 \<noteq> None" "heap layout0 5 \<noteq> None"
  by (simp_all add: layout0_def kids_def mutt_window_new_def)



text \<open>
  C2. As stated the claim is false: not every sequence of pushes and pops reaches a state.
  A push of a dialog that has no root window dereferences the null root in
  \<^verbatim>\<open>TAILQ_INSERT_TAIL\<close> (part_000, line 18).
\<close>

theorem dialog_run_null_root_counterexample:
  "dialog_run [Push (Some dialog_null_root)] layout0 = Inl NullDeref"
  by (simp add: dialog_null_root_def layout0_def dialog_push_def deref_def TAILQ_LAST_def
      TAILQ_INSERT_TAIL_def mutt_window_new_def)

text \<open>
  C2 (amended). Start with a dialog container that has no children, and run any finite
  sequence of \<^verbatim>\<open>dialog_push\<close> and \<^verbatim>\<open>dialog_pop\<close> in which every pushed dialog is null or has
  a root that points to a window and is not in the container at that moment. The run ends
  without a fault, the container's children are the roots pushed and not yet popped, at
  most one of them is visible, and it is the most recently pushed one still there.
\<close>

theorem dialog_stack_invariant:
  assumes "MuttDialogWindow g = Some c" and "kids g c = Some []" and "run_ok g ops []"
  shows "\<exists>g'. dialog_run ops g = Inr g' \<and>
           dialog_children g' = lifo ops [] \<and>
           length (visible_dialogs g') \<le> 1 \<and>
           visible_dialogs g' = (if lifo ops [] = [] then [] else [last (lifo ops [])])"
proof -
  have "stack_inv g []" using assms(1,2) by (simp add: stack_inv_def)
  from stack_inv_run [OF this assms(3)]
  obtain g' where g': "dialog_run ops g = Inr g'" "stack_inv g' (lifo ops [])" by blast
  from stack_inv_visible [OF g'(2)] g'(1) show ?thesis by auto
qed

text \<open>
  C2 (amended), witness: push \<open>dialog1\<close>, push \<open>dialog2\<close>, pop. The container holds the root of
  \<open>dialog1\<close> alone and that root is the visible child.
\<close>

theorem dialog_stack_invariant_witness:
  "\<exists>g'. dialog_run [Push (Some dialog1), Push (Some dialog2), Pop] layout0 = Inr g' \<and>
         dialog_children g' = [4] \<and> visible_dialogs g' = [4]"
  using dialog_stack_invariant [of layout0 2 "[Push (Some dialog1), Push (Some dialog2), Pop]"]
  by (auto simp: layout0_simps dialog1_def dialog2_def)







subsection \<open>Creating a window\<close>

text \<open>
  C10. As stated the claim is false: the parameters are \<^verbatim>\<open>int\<close> and the fields that store
  them are \<^verbatim>\<open>short\<close>, so a requested size outside the range of \<^verbatim>\<open>short\<close> is not stored as
  given.
\<close>

theorem mutt_window_new_range_counterexample:
  "req_rows (mutt_window_new MUTT_WIN_ORIENT_VERTICAL MUTT_WIN_SIZE_FIXED 100000 0) \<noteq> 100000"
  by (simp add: mutt_window_new_def to_short_def)

lemma to_short_id: "in_short x \<Longrightarrow> to_short x = x"
  by (simp add: in_short_def to_short_def)

text \<open>
  C10 (amended). For every orientation, size policy and requested rows and columns,
  \<^verbatim>\<open>mutt_window_new\<close> returns a window that is visible, stores the given orientation and
  policy, stores the requested sizes narrowed to \<^verbatim>\<open>short\<close> (so exactly as given whenever
  they lie between -32768 and 32767), has all current and previous geometry fields zero,
  has no parent and has no children.
\<close>

theorem mutt_window_new_spec:
  "visible (state (mutt_window_new orient' size' rows' cols')) \<and>
   orient (mutt_window_new orient' size' rows' cols') = orient' \<and>
   win_size (mutt_window_new orient' size' rows' cols') = size' \<and>
   req_rows (mutt_window_new orient' size' rows' cols') = to_short rows' \<and>
   req_cols (mutt_window_new orient' size' rows' cols') = to_short cols' \<and>
   (in_short rows' \<longrightarrow> req_rows (mutt_window_new orient' size' rows' cols') = rows') \<and>
   (in_short cols' \<longrightarrow> req_cols (mutt_window_new orient' size' rows' cols') = cols') \<and>
   pane_geometry (mutt_window_new orient' size' rows' cols') = ((0, 0, 0, 0), (0, 0, 0, 0)) \<and>
   parent (mutt_window_new orient' size' rows' cols') = None \<and>
   children (mutt_window_new orient' size' rows' cols') = []"
  by (simp add: mutt_window_new_def to_short_id zero_WindowState_def pane_geometry_def geometry_def)

text \<open>
  C10, witness: the Help window of \<^verbatim>\<open>mutt_window_init\<close>, one row and unlimited columns.
\<close>

theorem mutt_window_new_witness:
  "in_short 1 \<and> in_short MUTT_WIN_SIZE_UNLIMITED \<and>
   req_rows (mutt_window_new MUTT_WIN_ORIENT_VERTICAL MUTT_WIN_SIZE_FIXED 1 MUTT_WIN_SIZE_UNLIMITED) = 1 \<and>
   req_cols (mutt_window_new MUTT_WIN_ORIENT_VERTICAL MUTT_WIN_SIZE_FIXED 1 MUTT_WIN_SIZE_UNLIMITED) = - 1"
  using mutt_window_new_spec [of MUTT_WIN_ORIENT_VERTICAL MUTT_WIN_SIZE_FIXED 1 MUTT_WIN_SIZE_UNLIMITED]
  by (simp add: in_short_def MUTT_WIN_SIZE_UNLIMITED_def)

subsection \<open>Reflow in the flat variant\<close>

lemmas flat_eval = startup_flat_def blank_flat_def mutt_window_init_flat_def
  mutt_window_add_child_flat_def mutt_window_new_flat_def Let_def

lemma startup_flat_simps:
  "MuttStatusWindow_flat (startup_flat l c sb w) \<noteq> None"
  "MuttHelpWindow_flat (startup_flat l c sb w) \<noteq> None"
  "MuttMessageWindow_flat (startup_flat l c sb w) \<noteq> None"
  "MuttIndexWindow_flat (startup_flat l c sb w) \<noteq> None"
  "MuttSidebarWindow_flat (startup_flat l c sb w) \<noteq> None"
  "LINES (startup_flat l c sb w) = l" "COLS (startup_flat l c sb w) = c"
  "C_SidebarVisible (startup_flat l c sb w) = sb" "C_SidebarWidth (startup_flat l c sb w) = w"
  "C_Help_flat (startup_flat l c sb w)" "\<not> OptNoCurses_flat (startup_flat l c sb w)"
  by (simp_all add: flat_eval)

lemma reflow_flat_result:
  assumes "\<not> OptNoCurses_flat g"
    and "MuttStatusWindow_flat g \<noteq> None" and "MuttHelpWindow_flat g \<noteq> None"
    and "MuttMessageWindow_flat g \<noteq> None" and "MuttIndexWindow_flat g \<noteq> None"
    and "C_SidebarVisible g \<longrightarrow> MuttSidebarWindow_flat g \<noteq> None"
  shows "\<exists>g' s h m i.
           mutt_window_reflow_flat g = Inr g' \<and>
           LINES g' = LINES g \<and> COLS g' = COLS g \<and> C_Help_flat g' = C_Help_flat g \<and>
           C_SidebarVisible g' = C_SidebarVisible g \<and>
           MuttStatusWindow_flat g' = Some s \<and> MuttHelpWindow_flat g' = Some h \<and>
           MuttMessageWindow_flat g' = Some m \<and> MuttIndexWindow_flat g' = Some i \<and>
           rows s = 1 \<and> cols s = COLS g \<and> col_offset s = 0 \<and>
           row_offset s = (if C_StatusOnTop_flat g then 0 else LINES g - 2) \<and>
           rows h = (if C_Help_flat g then 1 else 0) \<and> cols h = COLS g \<and> col_offset h = 0 \<and>
           row_offset h = (if C_Help_flat g then (if C_StatusOnTop_flat g then LINES g - 2 else 0)
                           else row_offset s) \<and>
           rows m = 1 \<and> cols m = COLS g \<and> col_offset m = 0 \<and> row_offset m = LINES g - 1 \<and>
           rows i = max (LINES g - 2 - rows h) 0 \<and>
           row_offset i = (if C_StatusOnTop_flat g then 1 else rows h) \<and>
           cols i = (if C_SidebarVisible g then COLS g - C_SidebarWidth g else COLS g) \<and>
           col_offset i = (if C_SidebarVisible g \<and> \<not> C_SidebarOnRight g then C_SidebarWidth g else 0) \<and>
           (C_SidebarVisible g \<longrightarrow>
              (\<exists>sb. MuttSidebarWindow_flat g' = Some sb \<and> rows sb = rows i \<and>
                 row_offset sb = row_offset i \<and> cols sb = C_SidebarWidth g \<and>
                 col_offset sb = (if C_SidebarOnRight g then COLS g - C_SidebarWidth g else 0)))"
proof -
  from assms(2-5) obtain s0 h0 m0 i0 where w:
    "MuttStatusWindow_flat g = Some s0" "MuttHelpWindow_flat g = Some h0"
    "MuttMessageWindow_flat g = Some m0" "MuttIndexWindow_flat g = Some i0" by auto
  show ?thesis
  proof (cases "C_SidebarVisible g")
    case False
    then show ?thesis using assms(1) w
      by (simp add: mutt_window_reflow_flat_def mutt_window_copy_size_flat_def Let_def)
  next
    case True
    with assms(6) obtain sb0 where sb: "MuttSidebarWindow_flat g = Some sb0" by auto
    show ?thesis using assms(1) w True sb
      by (simp add: mutt_window_reflow_flat_def mutt_window_copy_size_flat_def Let_def)
  qed
qed

lemma apart_rows: "row_offset a + rows a \<le> row_offset b \<or> row_offset b + rows b \<le> row_offset a
    \<Longrightarrow> \<not> overlap a b"
  unfolding overlap_def by linarith

lemma apart_cols: "col_offset a + cols a \<le> col_offset b \<or> col_offset b + cols b \<le> col_offset a
    \<Longrightarrow> \<not> overlap a b"
  unfolding overlap_def by linarith

text \<open>
  C1. As stated the claim is false, in two ways. First, the reflow of this variant never
  writes a window that has children: on a screen of 24 lines and 80 columns the container
  \<^verbatim>\<open>w5\<close>, parent of Index and Status, keeps the -1 rows it was created with while its
  children get 21 rows and 1 row, and no window is ever marked visible; the tiling fails at
  the parents whether the visible children are taken by their flag or all children are
  taken as visible. Second, on a screen of one line even the named windows do not tile the
  screen: Status, Help and Message get one row each, 3 in all, and Help and Message both
  lie on row 0 over all columns.
\<close>

theorem reflow_flat_tree_counterexample:
  "(case mutt_window_reflow_flat (startup_flat 24 80 False 20) of
      Inl e \<Rightarrow> False
    | Inr g' \<Rightarrow>
        map_option children_flat (window_flat g' Win_w5) = Some [Win_Index, Win_Status] \<and>
        map_option orient_flat (window_flat g' Win_w5) = Some MUTT_WIN_ORIENT_VERTICAL \<and>
        map_option rows (window_flat g' Win_w5) = Some (- 1) \<and>
        map_option rows (window_flat g' Win_Index) = Some 21 \<and>
        map_option rows (window_flat g' Win_Status) = Some 1 \<and>
        map_option visible (window_flat g' Win_Index) = Some False \<and>
        \<not> parent_tiled visible g' Win_w5 \<and>
        \<not> parent_tiled (\<lambda>w. True) g' Win_w5 \<and>
        \<not> tree_tiled visible g' \<and>
        \<not> tree_tiled (\<lambda>w. True) g') \<and>
   (case mutt_window_reflow_flat (startup_flat 1 80 False 20) of
      Inl e \<Rightarrow> False
    | Inr g' \<Rightarrow>
        rows_of (MuttStatusWindow_flat g') + rows_of (MuttHelpWindow_flat g') +
          rows_of (MuttIndexWindow_flat g') + rows_of (MuttMessageWindow_flat g') = 3 \<and>
        LINES g' = 1 \<and>
        overlap (the (MuttHelpWindow_flat g')) (the (MuttMessageWindow_flat g')) \<and>
        \<not> tiles_screen g')"
  by (simp add: mutt_window_reflow_flat_def flat_eval mutt_window_copy_size_flat_def rows_of_def
      tiles_screen_def shown_flat_def overlap_def tree_tiled_def all_panes_flat_def
      parent_tiled_def visible_children_flat_def extent_flat_def List.map_filter_simps
      MUTT_WIN_SIZE_UNLIMITED_def)

text \<open>
  C1 (amended). When curses is in use, the named windows exist, the screen has at least as
  many lines as the fixed rows need (Status and Message, and Help when \<^verbatim>\<open>C_Help\<close> is set: 2
  or 3 lines) and, when the sidebar is shown, its width is between 0 and \<^verbatim>\<open>COLS\<close>,
  \<^verbatim>\<open>mutt_window_reflow\<close> of src/mutt_window.c completes and the shown named windows tile
  the screen: each of Status, Help (if shown), Index, Message and Sidebar (if shown) has
  extents that are not negative and lies within the screen, the row extents of Status,
  Help, Index and Message add up to \<^verbatim>\<open>LINES\<close> exactly, the column extents of Sidebar and
  Index add up to \<^verbatim>\<open>COLS\<close> exactly, and no two of the shown windows overlap. Nothing is said
  about the windows that have children: the reflow does not size them.
\<close>

theorem reflow_flat_tiles:
  assumes "\<not> OptNoCurses_flat g"
    and "MuttStatusWindow_flat g \<noteq> None" and "MuttHelpWindow_flat g \<noteq> None"
    and "MuttMessageWindow_flat g \<noteq> None" and "MuttIndexWindow_flat g \<noteq> None"
    and "C_SidebarVisible g \<longrightarrow> MuttSidebarWindow_flat g \<noteq> None"
    and big: "2 + (if C_Help_flat g then 1 else 0) \<le> LINES g"
    and wide: "0 \<le> COLS g"
    and fit: "C_SidebarVisible g \<longrightarrow> 0 \<le> C_SidebarWidth g \<and> C_SidebarWidth g \<le> COLS g"
  shows "\<exists>g'. mutt_window_reflow_flat g = Inr g' \<and> tiles_screen g'"
proof -
  from reflow_flat_result [OF assms(1-6)]
  obtain g' s h m i where run: "mutt_window_reflow_flat g = Inr g'"
    and cfg: "LINES g' = LINES g" "COLS g' = COLS g" "C_Help_flat g' = C_Help_flat g"
      "C_SidebarVisible g' = C_SidebarVisible g"
    and win: "MuttStatusWindow_flat g' = Some s" "MuttHelpWindow_flat g' = Some h"
      "MuttMessageWindow_flat g' = Some m" "MuttIndexWindow_flat g' = Some i"
    and s: "rows s = 1" "row_offset s = (if C_StatusOnTop_flat g then 0 else LINES g - 2)"
    and sc: "cols s = COLS g" "col_offset s = 0"
    and h: "rows h = (if C_Help_flat g then 1 else 0)"
      "row_offset h = (if C_Help_flat g then (if C_StatusOnTop_flat g then LINES g - 2 else 0)
                           else row_offset s)"
    and hc: "cols h = COLS g" "col_offset h = 0"
    and m: "rows m = 1" "row_offset m = LINES g - 1"
    and mc: "cols m = COLS g" "col_offset m = 0"
    and i: "rows i = max (LINES g - 2 - rows h) 0"
      "row_offset i = (if C_StatusOnTop_flat g then 1 else rows h)"
      "cols i = (if C_SidebarVisible g then COLS g - C_SidebarWidth g else COLS g)"
      "col_offset i = (if C_SidebarVisible g \<and> \<not> C_SidebarOnRight g then C_SidebarWidth g else 0)"
    and sb: "C_SidebarVisible g \<longrightarrow>
              (\<exists>sb. MuttSidebarWindow_flat g' = Some sb \<and> rows sb = rows i \<and>
                 row_offset sb = row_offset i \<and> cols sb = C_SidebarWidth g \<and>
                 col_offset sb = (if C_SidebarOnRight g then COLS g - C_SidebarWidth g else 0))"
    by blast
  have ri: "rows i = LINES g - 2 - rows h" using i(1) h(1) big by (simp split: if_splits)
  have sh: "C_Help_flat g \<Longrightarrow> \<not> overlap s h"
    using s h big by (intro apart_rows) (simp split: if_splits)
  have si: "\<not> overlap s i"
    using s h ri i(2) big by (intro apart_rows) (simp split: if_splits)
  have sm: "\<not> overlap s m"
    using s m big by (intro apart_rows) (simp split: if_splits)
  have hi: "C_Help_flat g \<Longrightarrow> \<not> overlap h i"
    using h ri i(2) big by (intro apart_rows) (simp split: if_splits)
  have hm: "C_Help_flat g \<Longrightarrow> \<not> overlap h m"
    using h m big by (intro apart_rows) (simp split: if_splits)
  have im: "\<not> overlap i m"
    using h(1) ri i(2) m big by (intro apart_rows) (simp split: if_splits)
  have ins: "inside_screen g' s"
    using s sc big wide cfg(1,2) by (simp add: inside_screen_def split: if_splits)
  have inh: "C_Help_flat g \<Longrightarrow> inside_screen g' h"
    using h hc big wide cfg(1,2) by (simp add: inside_screen_def split: if_splits)
  have inm: "inside_screen g' m"
    using m mc big wide cfg(1,2) by (simp add: inside_screen_def split: if_splits)
  have irow: "0 \<le> rows i \<and> 0 \<le> row_offset i \<and> row_offset i + rows i \<le> LINES g"
    using h(1) ri i(2) big by (simp split: if_splits)
  have icol: "0 \<le> cols i \<and> 0 \<le> col_offset i \<and> col_offset i + cols i \<le> COLS g"
    using i(3,4) wide fit by (simp split: if_splits)
  have ini: "inside_screen g' i"
    using irow icol cfg(1,2) by (simp add: inside_screen_def)
  have rows_sum: "rows s + (if C_Help_flat g then rows h else 0) + rows i + rows m = LINES g"
    using s(1) h(1) m(1) ri by simp
  show ?thesis
  proof (cases "C_SidebarVisible g")
    case False
    have "tiles_screen g'"
      using False cfg win rows_sum i(3) sh si sm hi hm im ins inh inm ini
      by (cases "C_Help_flat g") (simp_all add: tiles_screen_def shown_flat_def rows_of_def cols_of_def)
    with run show ?thesis by blast
  next
    case True
    with sb obtain b where b: "MuttSidebarWindow_flat g' = Some b" "rows b = rows i"
      "row_offset b = row_offset i" "cols b = C_SidebarWidth g"
      "col_offset b = (if C_SidebarOnRight g then COLS g - C_SidebarWidth g else 0)" by blast
    have sbb: "\<not> overlap s b"
      using s h ri i(2) b(2,3) big by (intro apart_rows) (simp split: if_splits)
    have hb: "C_Help_flat g \<Longrightarrow> \<not> overlap h b"
      using h ri i(2) b(2,3) big by (intro apart_rows) (simp split: if_splits)
    have mb: "\<not> overlap m b"
      using h(1) ri i(2) m b(2,3) big by (intro apart_rows) (simp split: if_splits)
    have ib: "\<not> overlap i b"
      using i(3,4) b(4,5) True by (intro apart_cols) (simp split: if_splits)
    have bcol: "0 \<le> cols b \<and> 0 \<le> col_offset b \<and> col_offset b + cols b \<le> COLS g"
      using b(4,5) True fit by (simp split: if_splits)
    have inb: "inside_screen g' b"
      using irow bcol b(2,3) cfg(1,2) by (simp add: inside_screen_def)
    have "tiles_screen g'"
      using True cfg win b(1,4) rows_sum i(3) sh si sm hi hm im sbb hb mb ib ins inh inm ini inb
      by (cases "C_Help_flat g") (simp_all add: tiles_screen_def shown_flat_def rows_of_def cols_of_def)
    with run show ?thesis by blast
  qed
qed

text \<open>
  C1 (amended), witness: a screen of 24 lines and 80 columns with a visible sidebar of
  width 20.
\<close>

theorem reflow_flat_tiles_witness:
  "\<exists>g'. mutt_window_reflow_flat (startup_flat 24 80 True 20) = Inr g' \<and> tiles_screen g'"
  using reflow_flat_tiles [of "startup_flat 24 80 True 20"]
  by (simp add: startup_flat_simps)

text \<open>
  The row extent of the Index window, the window with policy \<^verbatim>\<open>MUTT_WIN_SIZE_MAXIMISE\<close>, is
  never negative after \<^verbatim>\<open>mutt_window_reflow\<close>, whatever the screen size: lines 340-341 clamp
  it with \<^verbatim>\<open>MAX(..., 0)\<close>.
\<close>

lemma reflow_flat_index_rows_nonneg:
  assumes "\<not> OptNoCurses_flat g"
    and "MuttStatusWindow_flat g \<noteq> None" and "MuttHelpWindow_flat g \<noteq> None"
    and "MuttMessageWindow_flat g \<noteq> None" and "MuttIndexWindow_flat g \<noteq> None"
    and "C_SidebarVisible g \<longrightarrow> MuttSidebarWindow_flat g \<noteq> None"
  shows "\<exists>g'. mutt_window_reflow_flat g = Inr g' \<and> 0 \<le> rows_of (MuttIndexWindow_flat g')"
proof -
  from reflow_flat_result [OF assms] show ?thesis
    by (elim exE conjE) (simp add: rows_of_def)
qed

text \<open>
  What \<^verbatim>\<open>mutt_window_reflow_message_rows\<close> of src/mutt_window.c changes: the rows and row
  offset of Message, the row offset of Status and of Help (when shown), the rows of Index
  and of Sidebar (when shown), clamped at zero; it requests a full redraw and no
  \<^verbatim>\<open>REDRAW_FLOW\<close>. No column extent, column offset or other window changes.
\<close>

lemma reflow_message_rows_flat_result:
  assumes "MuttMessageWindow_flat g = Some m0" and "MuttStatusWindow_flat g = Some s0"
    and "MuttHelpWindow_flat g = Some h0" and "MuttIndexWindow_flat g = Some i0"
    and "C_SidebarVisible g \<longrightarrow> MuttSidebarWindow_flat g = Some b0"
  shows "\<exists>g'. mutt_window_reflow_message_rows_flat mw_rows g = Inr g' \<and>
           MuttMessageWindow_flat g' = Some (m0\<lparr>rows := mw_rows, row_offset := LINES g - mw_rows\<rparr>) \<and>
           MuttStatusWindow_flat g' =
             Some (s0\<lparr>row_offset := (if C_StatusOnTop_flat g then 0 else LINES g - mw_rows - 1)\<rparr>) \<and>
           MuttHelpWindow_flat g' =
             Some (if C_Help_flat g
                   then h0\<lparr>row_offset := (if C_StatusOnTop_flat g then LINES g - mw_rows - 1 else 0)\<rparr>
                   else h0) \<and>
           MuttIndexWindow_flat g' =
             Some (i0\<lparr>rows := max (LINES g - rows s0 - rows h0 - mw_rows) 0\<rparr>) \<and>
           MuttSidebarWindow_flat g' =
             (if C_SidebarVisible g
              then Some (b0\<lparr>rows := max (LINES g - rows s0 - rows h0 - mw_rows) 0\<rparr>)
              else MuttSidebarWindow_flat g) \<and>
           MuttPagerWindow_flat g' = MuttPagerWindow_flat g \<and>
           MuttPagerBarWindow_flat g' = MuttPagerBarWindow_flat g \<and>
           RootWindow_flat g' = RootWindow_flat g \<and>
           redraw_flat g' = redraw_flat g @ [REDRAW_FULL] \<and>
           0 \<le> rows_of (MuttIndexWindow_flat g')"
  using assms
  by (cases "C_SidebarVisible g")
    (simp_all add: mutt_window_reflow_message_rows_flat_def Let_def rows_of_def)

text \<open>
  C8. The claim holds for the rows and fails for the columns. On a screen 10 columns wide
  with a visible sidebar of the fixed width 20, the Fixed sibling asks for more than the
  available extent; line 350 subtracts the sidebar width from the columns of the Index
  window without the clamp that lines 340-341 apply to its rows, and the Maximise window
  is left with -10 columns.
\<close>

theorem reflow_flat_index_cols_negative:
  "(case mutt_window_reflow_flat (startup_flat 24 10 True 20) of
      Inl e \<Rightarrow> False
    | Inr g' \<Rightarrow>
        map_option size_flat (MuttSidebarWindow_flat g') = Some MUTT_WIN_SIZE_FIXED \<and>
        cols_of (MuttSidebarWindow_flat g') = 20 \<and>
        COLS g' = 10 \<and>
        map_option size_flat (MuttIndexWindow_flat g') = Some MUTT_WIN_SIZE_MAXIMISE \<and>
        cols_of (MuttIndexWindow_flat g') = - 10)"
  by (simp add: mutt_window_reflow_flat_def flat_eval mutt_window_copy_size_flat_def cols_of_def)


subsection \<open>Reflow in the tree variant\<close>

text \<open>
  \<^verbatim>\<open>mutt_window_reflow_prep\<close> writes to windows only: the global pointers and the
  configuration are as before. Hence \<^verbatim>\<open>mutt_window_reflow(NULL)\<close> is
  \<^verbatim>\<open>mutt_window_reflow(RootWindow)\<close>.
\<close>

lemma same_but_heap_store: "same_but_heap (store a w g) g"
  by (simp add: same_but_heap_def store_def)

lemma same_but_heap_root: "same_but_heap g' g \<Longrightarrow> RootWindow g' = RootWindow g"
  unfolding same_but_heap_def by (metis globals.select_convs(2) globals.surjective globals.update_convs(1))

lemma set_visible_same: "set_visible p b g = Inr g' \<Longrightarrow> same_but_heap g' g"
  by (auto simp: set_visible_def same_but_heap_store split: sum.splits)

lemma insert_tail_same: "TAILQ_INSERT_TAIL p e g = Inr g' \<Longrightarrow> same_but_heap g' g"
  by (auto simp: TAILQ_INSERT_TAIL_def same_but_heap_store split: sum.splits if_splits)

lemma remove_same: "TAILQ_REMOVE p e g = Inr g' \<Longrightarrow> same_but_heap g' g"
  by (auto simp: TAILQ_REMOVE_def same_but_heap_store split: sum.splits if_splits)

lemma reflow_prep_swap_same: "reflow_prep_swap win g = Inr g' \<Longrightarrow> same_but_heap g' g"
  by (auto simp: reflow_prep_swap_def Let_def same_but_heap_refl split: sum.splits if_splits
      dest!: insert_tail_same remove_same intro: same_but_heap_trans)

lemma reflow_prep_index_same: "reflow_prep_index g = Inr g' \<Longrightarrow> same_but_heap g' g"
  by (auto simp: reflow_prep_index_def Let_def split: sum.splits
      intro: same_but_heap_trans [OF same_but_heap_store same_but_heap_store])

lemma mutt_window_reflow_prep_same:
  assumes "mutt_window_reflow_prep g = Inr g'"
  shows "same_but_heap g' g"
proof -
  from assms obtain g1 g2 where g1: "set_visible (MuttHelpWindow g) (C_Help g) g = Inr g1"
    and g2: "reflow_prep_swap (MuttHelpWindow g1) g1 = Inr g2"
    by (auto simp: mutt_window_reflow_prep_def split: sum.splits)
  have s2: "same_but_heap g2 g"
    using set_visible_same [OF g1] reflow_prep_swap_same [OF g2] by (blast intro: same_but_heap_trans)
  show ?thesis
  proof (cases "MuttIndexWindow g2 = None \<or> MuttPagerWindow g2 = None")
    case True
    then have "g' = g2" using assms g1 g2 by (auto simp: mutt_window_reflow_prep_def)
    then show ?thesis using s2 by simp
  next
    case False
    with assms g1 g2 obtain g3 g4 where g3: "reflow_prep_swap (MuttIndexWindow g2) g2 = Inr g3"
      and g4: "reflow_prep_swap (MuttPagerWindow g3) g3 = Inr g4"
      and g5: "reflow_prep_index g4 = Inr g'"
      by (auto simp: mutt_window_reflow_prep_def split: sum.splits)
    show ?thesis
      using s2 reflow_prep_swap_same [OF g3] reflow_prep_swap_same [OF g4]
        reflow_prep_index_same [OF g5] by (blast intro: same_but_heap_trans)
  qed
qed

lemma mutt_window_reflow_null:
  "mutt_window_reflow window_reflow None g = mutt_window_reflow window_reflow (RootWindow g) g"
proof (cases "mutt_window_reflow_prep g")
  case (Inl e)
  then show ?thesis by (simp add: mutt_window_reflow_def)
next
  case (Inr g1)
  from mutt_window_reflow_prep_same [OF Inr] have "RootWindow g1 = RootWindow g"
    by (rule same_but_heap_root)
  then show ?thesis using Inr by (simp add: mutt_window_reflow_def)
qed

lemma layout0_root:
  "RootWindow layout0 = Some 0"
  "heap layout0 0 = Some ((mutt_window_new MUTT_WIN_ORIENT_VERTICAL MUTT_WIN_SIZE_FIXED 0 0)
               \<lparr>children := [1, 2, 3], name := Some ''Root''\<rparr>)"
  by (simp_all add: layout0_def)

lemma layout0_cfg_prep:
  "mutt_window_reflow_prep
     (store 3 (((mutt_window_new MUTT_WIN_ORIENT_VERTICAL MUTT_WIN_SIZE_FIXED 1 MUTT_WIN_SIZE_UNLIMITED)
               \<lparr>parent := Some 0, name := Some ''Message''\<rparr>)\<lparr>req_rows := to_short 3\<rparr>) layout0_cfg)
   = Inr layout0_prepped"
  by (simp add: mutt_window_reflow_prep_def reflow_prep_swap_def set_visible_def deref_def
      store_def TAILQ_FIRST_def TAILQ_REMOVE_def TAILQ_INSERT_TAIL_def layout0_cfg_def layout0_def
      layout0_prepped_def mutt_window_new_def to_short_def zero_WindowState_def
      MUTT_WIN_SIZE_UNLIMITED_def fun_eq_iff)

text \<open>
  \<^verbatim>\<open>mutt_window_reflow_prep\<close> changes visibility flags, requested rows, size policies and the
  order of children; it leaves the current and previous geometry of every window as it is.
\<close>

lemma store_geometry:
  assumes "heap g a = Some w0" and "pane_geometry w = pane_geometry w0"
  shows "map_option pane_geometry (heap (store a w g) x) = map_option pane_geometry (heap g x)"
  using assms by (simp add: store_def)

lemma set_visible_geometry:
  "set_visible p b g = Inr g' \<Longrightarrow>
     map_option pane_geometry (heap g' x) = map_option pane_geometry (heap g x)"
  by (auto simp: set_visible_def deref_def store_def pane_geometry_def geometry_def
      split: sum.splits option.splits)

lemma insert_tail_geometry:
  "TAILQ_INSERT_TAIL p e g = Inr g' \<Longrightarrow>
     map_option pane_geometry (heap g' x) = map_option pane_geometry (heap g x)"
  by (auto simp: TAILQ_INSERT_TAIL_def deref_def store_def pane_geometry_def geometry_def
      split: sum.splits option.splits if_splits)

lemma remove_geometry:
  "TAILQ_REMOVE p e g = Inr g' \<Longrightarrow>
     map_option pane_geometry (heap g' x) = map_option pane_geometry (heap g x)"
  by (auto simp: TAILQ_REMOVE_def deref_def store_def pane_geometry_def geometry_def
      split: sum.splits option.splits if_splits)

lemma reflow_prep_swap_geometry:
  assumes "reflow_prep_swap win g = Inr g'"
  shows "map_option pane_geometry (heap g' x) = map_option pane_geometry (heap g x)"
proof -
  from assms obtain w pw where w: "deref g win = Inr w" "deref g (parent w) = Inr pw"
    by (auto simp: reflow_prep_swap_def split: sum.splits)
  let ?first = "TAILQ_FIRST (children pw)"
  show ?thesis
  proof (cases "(C_StatusOnTop g \<and> ?first = win) \<or> (\<not> C_StatusOnTop g \<and> ?first \<noteq> win)")
    case False
    then have "g' = g" using assms w by (auto simp: reflow_prep_swap_def Let_def)
    then show ?thesis by simp
  next
    case True
    with assms w obtain g1 where g1: "TAILQ_REMOVE (parent w) ?first g = Inr g1"
      "TAILQ_INSERT_TAIL (parent w) ?first g1 = Inr g'"
      by (auto simp: reflow_prep_swap_def Let_def split: sum.splits)
    show ?thesis using remove_geometry [OF g1(1), of x] insert_tail_geometry [OF g1(2), of x]
      by simp
  qed
qed

lemma reflow_prep_index_geometry:
  "reflow_prep_index g = Inr g' \<Longrightarrow>
     map_option pane_geometry (heap g' x) = map_option pane_geometry (heap g x)"
  by (auto simp: reflow_prep_index_def Let_def deref_def store_def pane_geometry_def geometry_def
      split: sum.splits option.splits if_splits)

lemma mutt_window_reflow_prep_geometry:
  assumes "mutt_window_reflow_prep g = Inr g'"
  shows "map_option pane_geometry (heap g' x) = map_option pane_geometry (heap g x)"
proof -
  from assms obtain g1 g2 where g1: "set_visible (MuttHelpWindow g) (C_Help g) g = Inr g1"
    and g2: "reflow_prep_swap (MuttHelpWindow g1) g1 = Inr g2"
    by (auto simp: mutt_window_reflow_prep_def split: sum.splits)
  have s2: "map_option pane_geometry (heap g2 x) = map_option pane_geometry (heap g x)"
    using set_visible_geometry [OF g1, of x] reflow_prep_swap_geometry [OF g2, of x] by simp
  show ?thesis
  proof (cases "MuttIndexWindow g2 = None \<or> MuttPagerWindow g2 = None")
    case True
    then have "g' = g2" using assms g1 g2 by (auto simp: mutt_window_reflow_prep_def)
    then show ?thesis using s2 by simp
  next
    case False
    with assms g1 g2 obtain g3 g4 where g3: "reflow_prep_swap (MuttIndexWindow g2) g2 = Inr g3"
      and g4: "reflow_prep_swap (MuttPagerWindow g3) g3 = Inr g4"
      and g5: "reflow_prep_index g4 = Inr g'"
      by (auto simp: mutt_window_reflow_prep_def split: sum.splits)
    show ?thesis
      using s2 reflow_prep_swap_geometry [OF g3, of x] reflow_prep_swap_geometry [OF g4, of x]
        reflow_prep_index_geometry [OF g5, of x] by simp
  qed
qed

lemma layout0_resized_prep: "mutt_window_reflow_prep layout0_resized = Inr layout0_resized"
  by (simp add: mutt_window_reflow_prep_def reflow_prep_swap_def set_visible_def deref_def
      store_def TAILQ_FIRST_def layout0_resized_def layout0_def mutt_window_new_def
      zero_WindowState_def fun_eq_iff)

text \<open>
  C6. As stated the second half of the claim is false. With \<^verbatim>\<open>OptNoCurses\<close> set, a call with
  a new size stores the size and returns: the engine is not run and no redraw is
  requested. And a dimension that differs from the stored one need not change it: the
  comparison is made on \<^verbatim>\<open>int\<close>, the store narrows to \<^verbatim>\<open>short\<close>, so 65536 rows against a stored 0
  runs the reflow and leaves 0 rows stored.
\<close>

theorem set_root_counterexample:
  "mutt_window_set_root idle_engine 24 80 (layout0\<lparr>OptNoCurses := True\<rparr>) =
     Inr (layout0_resized\<lparr>OptNoCurses := True\<rparr>) \<and>
   redraw (layout0_resized\<lparr>OptNoCurses := True\<rparr>) = [] \<and>
   mutt_window_set_root idle_engine 65536 0 layout0 =
     Inr (layout0\<lparr>redraw := [REDRAW_FULL, REDRAW_FLOW]\<rparr>) \<and>
   map_option (\<lambda>w. rows (state w)) (heap layout0 0) = Some 0"
  by (simp add: mutt_window_set_root_def mutt_window_reflow_def mutt_window_reflow_prep_def
      reflow_prep_swap_def set_visible_def deref_def store_def TAILQ_FIRST_def win_dump_def
      mutt_menu_set_current_redraw_def mutt_menu_set_current_redraw_full_def idle_engine_def
      layout0_resized_def layout0_def mutt_window_new_def zero_WindowState_def to_short_def
      Let_def fun_eq_iff)

text \<open>
  C6 (amended). With a root window present: when \<open>rows\<close> and \<open>cols\<close> both equal the values
  stored in the root, \<^verbatim>\<open>mutt_window_set_root\<close> returns the state as it is (no window's
  current or previous geometry changes, the engine is not run, no redraw is requested).
  When one of them differs, each differing dimension is stored in the root narrowed to
  \<^verbatim>\<open>short\<close>, so that the root holds the given size whenever that fits a \<^verbatim>\<open>short\<close>. Then, with
  \<^verbatim>\<open>OptNoCurses\<close> set, nothing more happens; otherwise
  \<^verbatim>\<open>mutt_window_reflow_prep\<close> runs, the engine \<^verbatim>\<open>window_reflow\<close> is run on the root window in
  a state where the root still holds the stored size, and a full redraw and
  \<^verbatim>\<open>REDRAW_FLOW\<close> are requested, in this order.
\<close>

theorem set_root_spec:
  assumes "RootWindow g = Some a" and "heap g a = Some w"
  shows "(rows (state w) = rows' \<and> cols (state w) = cols' \<longrightarrow>
            mutt_window_set_root window_reflow rows' cols' g = Inr g) \<and>
         (rows (state w) \<noteq> rows' \<or> cols (state w) \<noteq> cols' \<longrightarrow>
            (OptNoCurses g \<longrightarrow>
               mutt_window_set_root window_reflow rows' cols' g =
                 Inr (store a (root_resized w rows' cols') g)) \<and>
            (\<not> OptNoCurses g \<longrightarrow>
               mutt_window_set_root window_reflow rows' cols' g =
                 (case mutt_window_reflow_prep (store a (root_resized w rows' cols') g) of
                    Inl e \<Rightarrow> Inl e
                  | Inr g1 \<Rightarrow>
                      (case window_reflow (Some a) g1 of
                         Inl e \<Rightarrow> Inl e
                       | Inr g2 \<Rightarrow>
                           win_dump (g2\<lparr>redraw := redraw g2 @ [REDRAW_FULL, REDRAW_FLOW]\<rparr>))))) \<and>
         (\<forall>g1. mutt_window_reflow_prep (store a (root_resized w rows' cols') g) = Inr g1 \<longrightarrow>
            map_option pane_geometry (heap g1 a) =
              Some (pane_geometry (root_resized w rows' cols'))) \<and>
         (in_short rows' \<and> in_short cols' \<longrightarrow>
            rows (state (root_resized w rows' cols')) = rows' \<and>
            cols (state (root_resized w rows' cols')) = cols')"
proof (intro conjI impI allI)
  assume "rows (state w) = rows' \<and> cols (state w) = cols'"
  then show "mutt_window_set_root window_reflow rows' cols' g = Inr g"
    using assms by (simp add: mutt_window_set_root_def deref_def Let_def)
next
  assume d: "rows (state w) \<noteq> rows' \<or> cols (state w) \<noteq> cols'"
  have eq: "mutt_window_set_root window_reflow rows' cols' g =
      mutt_window_reflow window_reflow (Some a) (store a (root_resized w rows' cols') g)"
    using assms d by (auto simp: mutt_window_set_root_def deref_def Let_def root_resized_def)
  have nc: "OptNoCurses (store a (root_resized w rows' cols') g) = OptNoCurses g"
    by (simp add: store_def)
  {
    assume "OptNoCurses g"
    then show "mutt_window_set_root window_reflow rows' cols' g =
        Inr (store a (root_resized w rows' cols') g)"
      using eq nc by (simp add: mutt_window_reflow_def)
  next
    assume "\<not> OptNoCurses g"
    then show "mutt_window_set_root window_reflow rows' cols' g =
        (case mutt_window_reflow_prep (store a (root_resized w rows' cols') g) of
           Inl e \<Rightarrow> Inl e
         | Inr g1 \<Rightarrow>
             (case window_reflow (Some a) g1 of
                Inl e \<Rightarrow> Inl e
              | Inr g2 \<Rightarrow>
                  win_dump (g2\<lparr>redraw := redraw g2 @ [REDRAW_FULL, REDRAW_FLOW]\<rparr>)))"
      using eq nc
      by (simp add: mutt_window_reflow_def mutt_menu_set_current_redraw_def
          mutt_menu_set_current_redraw_full_def split: sum.splits)
  }
next
  fix g1
  assume "mutt_window_reflow_prep (store a (root_resized w rows' cols') g) = Inr g1"
  from mutt_window_reflow_prep_geometry [OF this, of a]
  show "map_option pane_geometry (heap g1 a) = Some (pane_geometry (root_resized w rows' cols'))"
    by (simp add: store_def)
next
  assume r: "in_short rows' \<and> in_short cols'"
  then show "rows (state (root_resized w rows' cols')) = rows'"
    by (simp add: root_resized_def to_short_id)
  from r show "cols (state (root_resized w rows' cols')) = cols'"
    by (simp add: root_resized_def to_short_id)
qed

text \<open>
  C6 (amended), witness: the root of \<open>layout0\<close> stores 0 rows and 0 columns. A call with
  (0, 0) changes nothing; a call with (24, 80) stores the size, and the engine is run on
  the root of the layout with that size.
\<close>

theorem set_root_witness:
  "\<forall>window_reflow.
     mutt_window_set_root window_reflow 0 0 layout0 = Inr layout0 \<and>
     mutt_window_set_root window_reflow 24 80 layout0 =
       (case window_reflow (Some 0) layout0_resized of
          Inl e \<Rightarrow> Inl e
        | Inr g2 \<Rightarrow> win_dump (g2\<lparr>redraw := redraw g2 @ [REDRAW_FULL, REDRAW_FLOW]\<rparr>))"
proof (intro allI conjI)
  fix window_reflow
  show "mutt_window_set_root window_reflow 0 0 layout0 = Inr layout0"
    using set_root_spec [OF layout0_root, of 0 0 window_reflow]
    by (simp add: mutt_window_new_def zero_WindowState_def)
  have r: "store 0 (root_resized ((mutt_window_new MUTT_WIN_ORIENT_VERTICAL MUTT_WIN_SIZE_FIXED 0 0)
               \<lparr>children := [1, 2, 3], name := Some ''Root''\<rparr>) 24 80) layout0 = layout0_resized"
    by (simp add: root_resized_def layout0_resized_def mutt_window_new_def zero_WindowState_def
        to_short_def)
  have n: "\<not> OptNoCurses layout0" by (simp add: layout0_def)
  show "mutt_window_set_root window_reflow 24 80 layout0 =
       (case window_reflow (Some 0) layout0_resized of
          Inl e \<Rightarrow> Inl e
        | Inr g2 \<Rightarrow> win_dump (g2\<lparr>redraw := redraw g2 @ [REDRAW_FULL, REDRAW_FLOW]\<rparr>))"
    using set_root_spec [OF layout0_root, of 24 80 window_reflow] n
    unfolding r layout0_resized_prep
    by (simp add: mutt_window_new_def zero_WindowState_def)
qed

text \<open>
  C3. In the tree variant the operation is not narrow. With the help line switched off
  and the status line on top, \<^verbatim>\<open>mutt_window_reflow_message_rows(3)\<close> stores the requested
  rows and then runs the whole of \<^verbatim>\<open>mutt_window_reflow\<close> on the parent of the Message
  window, the root: \<^verbatim>\<open>mutt_window_reflow_prep\<close> hides the Help window and moves it behind
  its siblings, the engine \<^verbatim>\<open>window_reflow\<close> is run on the root, and \<^verbatim>\<open>REDRAW_FLOW\<close> is
  requested, whatever the engine is.
\<close>

theorem reflow_message_rows_full_reflow:
  "(\<forall>window_reflow.
      mutt_window_reflow_message_rows window_reflow 3 layout0_cfg =
        (case window_reflow (Some 0) layout0_prepped of
           Inl e \<Rightarrow> Inl e
         | Inr g2 \<Rightarrow>
             (case win_dump (g2\<lparr>redraw := redraw g2 @ [REDRAW_FULL, REDRAW_FLOW]\<rparr>) of
                Inl e \<Rightarrow> Inl e
              | Inr g3 \<Rightarrow> Inr (g3\<lparr>redraw := redraw g3 @ [REDRAW_FULL]\<rparr>)))) \<and>
   kids layout0_cfg 0 = Some [1, 2, 3] \<and> kids layout0_prepped 0 = Some [2, 3, 1] \<and>
   is_visible layout0_cfg 1 \<and> \<not> is_visible layout0_prepped 1"
proof (intro conjI allI)
  fix window_reflow
  let ?msg = "(mutt_window_new MUTT_WIN_ORIENT_VERTICAL MUTT_WIN_SIZE_FIXED 1 MUTT_WIN_SIZE_UNLIMITED)
               \<lparr>parent := Some 0, name := Some ''Message''\<rparr>"
  let ?g1 = "store 3 (?msg\<lparr>req_rows := to_short 3\<rparr>) layout0_cfg"
  have a: "MuttMessageWindow layout0_cfg = Some 3"
    by (simp add: layout0_cfg_def layout0_def)
  have b: "deref layout0_cfg (Some 3) = Inr ?msg"
    by (simp add: deref_def layout0_cfg_def layout0_def)
  have p: "parent ?msg = Some 0" by simp
  have c: "OptNoCurses ?g1 = False"
    by (simp add: store_def layout0_cfg_def layout0_def)
  have r: "mutt_window_reflow window_reflow (Some 0) ?g1 =
      (case window_reflow (Some 0) layout0_prepped of
           Inl e \<Rightarrow> Inl e
         | Inr g2 \<Rightarrow> win_dump (g2\<lparr>redraw := redraw g2 @ [REDRAW_FULL, REDRAW_FLOW]\<rparr>))"
    unfolding mutt_window_reflow_def c layout0_cfg_prep
    by (simp add: mutt_menu_set_current_redraw_def mutt_menu_set_current_redraw_full_def
        split: sum.splits)
  show "mutt_window_reflow_message_rows window_reflow 3 layout0_cfg =
        (case window_reflow (Some 0) layout0_prepped of
           Inl e \<Rightarrow> Inl e
         | Inr g2 \<Rightarrow>
             (case win_dump (g2\<lparr>redraw := redraw g2 @ [REDRAW_FULL, REDRAW_FLOW]\<rparr>) of
                Inl e \<Rightarrow> Inl e
              | Inr g3 \<Rightarrow> Inr (g3\<lparr>redraw := redraw g3 @ [REDRAW_FULL]\<rparr>)))"
    unfolding mutt_window_reflow_message_rows_def a b sum.case option.sel p r
    by (simp add: mutt_menu_set_current_redraw_full_def split: sum.splits)
qed (simp_all add: kids_def is_visible_def layout0_cfg_def layout0_def layout0_prepped_def
    mutt_window_new_def zero_WindowState_def)

subsection \<open>Null arguments\<close>

text \<open>
  C9. As stated the claim is false: \<^verbatim>\<open>mutt_window_move\<close> reads \<^verbatim>\<open>win->state.row_offset\<close>
  without a test, so a null window is a null dereference, not a silent return.
\<close>

theorem move_null_counterexample:
  "mutt_window_move None 0 0 layout0 = Inl NullDeref"
  by (simp add: mutt_window_move_def deref_def)

text \<open>
  C9 (amended). \<^verbatim>\<open>mutt_window_add_child\<close> with a null parent or child,
  \<^verbatim>\<open>mutt_window_free\<close> with a null pointer or a pointer to a null window,
  \<^verbatim>\<open>mutt_window_copy_size\<close> with a null source or destination, \<^verbatim>\<open>dialog_push\<close> with a null
  dialog, \<^verbatim>\<open>dialog_push\<close> and \<^verbatim>\<open>dialog_pop\<close> without a dialog container, and
  \<^verbatim>\<open>mutt_window_set_root\<close> without a root window return with the state unchanged.
  \<^verbatim>\<open>mutt_window_reflow\<close> with a null window is not a no-op: it reflows the root window.
\<close>

theorem null_arguments_spec:
  "mutt_window_add_child None child g = Inr g \<and>
   mutt_window_add_child parent' None g = Inr g \<and>
   mutt_window_free fuel None g = Some (Inr (None, g)) \<and>
   mutt_window_free fuel (Some None) g = Some (Inr (Some None, g)) \<and>
   mutt_window_copy_size None win_dst g = Inr g \<and>
   mutt_window_copy_size win_src None g = Inr g \<and>
   dialog_push None g = Inr g \<and>
   (MuttDialogWindow g = None \<longrightarrow> dialog_push dlg g = Inr g \<and> dialog_pop g = Inr g) \<and>
   (RootWindow g = None \<longrightarrow> mutt_window_set_root window_reflow rows' cols' g = Inr g) \<and>
   mutt_window_reflow window_reflow None g = mutt_window_reflow window_reflow (RootWindow g) g"
  using mutt_window_reflow_null [of window_reflow g]
  by (simp add: mutt_window_add_child_def mutt_window_free_def mutt_window_copy_size_def
      dialog_push_def dialog_pop_def mutt_window_set_root_def)

text \<open>
  C9, witness: before \<^verbatim>\<open>mutt_window_init\<close>, with neither a root window nor a dialog
  container.
\<close>

theorem null_arguments_witness:
  "\<forall>window_reflow.
     MuttDialogWindow globals_null = None \<and> RootWindow globals_null = None \<and>
     mutt_window_add_child None (Some 1) globals_null = Inr globals_null \<and>
     mutt_window_free 0 (Some None) globals_null = Some (Inr (Some None, globals_null)) \<and>
     dialog_push (Some dialog1) globals_null = Inr globals_null \<and>
     dialog_pop globals_null = Inr globals_null \<and>
     mutt_window_set_root window_reflow 24 80 globals_null = Inr globals_null"
proof
  fix window_reflow
  have n: "MuttDialogWindow globals_null = None" "RootWindow globals_null = None"
    by (simp_all add: globals_null_def)
  from null_arguments_spec [of "Some 1" globals_null None 0 None None "Some dialog1" window_reflow 24 80] n
  show "MuttDialogWindow globals_null = None \<and> RootWindow globals_null = None \<and>
     mutt_window_add_child None (Some 1) globals_null = Inr globals_null \<and>
     mutt_window_free 0 (Some None) globals_null = Some (Inr (Some None, globals_null)) \<and>
     dialog_push (Some dialog1) globals_null = Inr globals_null \<and>
     dialog_pop globals_null = Inr globals_null \<and>
     mutt_window_set_root window_reflow 24 80 globals_null = Inr globals_null"
    by simp
qed

end
